theory Spec2Isabelle
  imports Main
begin

section \<open>Python values and primitive operations\<close>

text \<open>
  The two source modules are pure functions over Python's unbounded integers, strings,
  lists and dictionaries. Integers are \<^typ>\<open>int\<close>. HOL's \<open>div\<close> and \<open>mod\<close> on
  \<^typ>\<open>int\<close> round towards minus infinity and give a remainder with the sign of the
  divisor, exactly as Python's \<open>//\<close> and \<open>%\<close> do, so \<open>x % 4\<close> with a literal,
  non-zero divisor is written \<open>x mod 4\<close>. Where the divisor is a computed value the
  operation goes through \<open>py_mod\<close> / \<open>py_floordiv\<close>, which raise on zero.

  A Python \<open>str\<close> is modelled as a \<^typ>\<open>string\<close> holding its UTF-8 bytes: every
  ASCII character is one \<^typ>\<open>char\<close>, and each of the non-ASCII glyphs of the source
  (arrows, shapes, dashes) is the byte sequence of its encoding. The source only
  concatenates, joins and compares such strings, and searches and indexes ASCII-only
  ones; it never measures a string containing a glyph.
\<close>

datatype error = ValueError string | IndexError | ZeroDivisionError

definition bindE :: "error + 'a \<Rightarrow> ('a \<Rightarrow> error + 'b) \<Rightarrow> error + 'b" where
  "bindE m f = (case m of Inl e \<Rightarrow> Inl e | Inr x \<Rightarrow> f x)"

definition py_index :: "'a list \<Rightarrow> int \<Rightarrow> error + 'a" where
  \<comment> \<open>\<open>xs[i]\<close>: a negative index counts from the end, anything else out of range raises\<close>
  "py_index xs i =
     (if 0 \<le> i \<and> i < int (length xs) then Inr (xs ! nat i)
      else if i < 0 \<and> - int (length xs) \<le> i then Inr (xs ! nat (int (length xs) + i))
      else Inl IndexError)"

definition py_mod :: "int \<Rightarrow> int \<Rightarrow> error + int" where
  "py_mod x y = (if y = 0 then Inl ZeroDivisionError else Inr (x mod y))"

definition py_floordiv :: "int \<Rightarrow> int \<Rightarrow> error + int" where
  "py_floordiv x y = (if y = 0 then Inl ZeroDivisionError else Inr (x div y))"

text \<open>\<open>str(n)\<close> for an integer: decimal digits, most significant first, \<open>-\<close> in front
  of a negative number.\<close>

definition digit_char :: "nat \<Rightarrow> char" where
  "digit_char d = char_of (48 + d)"

fun str_nat :: "nat \<Rightarrow> string" where
  "str_nat n = (if n < 10 then [digit_char n] else str_nat (n div 10) @ [digit_char (n mod 10)])"

declare str_nat.simps [simp del]

definition str :: "int \<Rightarrow> string" where
  "str i = (if i < 0 then CHR ''-'' # str_nat (nat (- i)) else str_nat (nat i))"

text \<open>\<open>sep.join(xs)\<close>.\<close>

fun join :: "string \<Rightarrow> string list \<Rightarrow> string" where
  "join sep [] = []"
| "join sep [x] = x"
| "join sep (x # y # ys) = x @ sep @ join sep (y # ys)"

text \<open>\<open>s in t\<close> on strings: \<open>s\<close> occurs in \<open>t\<close> as a contiguous run.\<close>

fun starts_with :: "string \<Rightarrow> string \<Rightarrow> bool" where
  "starts_with t [] = True"
| "starts_with [] (c # s) = False"
| "starts_with (d # t) (c # s) = (d = c \<and> starts_with t s)"

fun str_contains :: "string \<Rightarrow> string \<Rightarrow> bool" where
  "str_contains [] s = (s = [])"
| "str_contains (d # t) s = (starts_with (d # t) s \<or> str_contains t s)"

text \<open>The values a \<open>meta\<close> dictionary holds: integers, strings, lists, tuples and
  nested dictionaries. A dictionary is an association list in insertion order.\<close>

datatype pyval =
    VInt int
  | VStr string
  | VList "pyval list"
  | VTuple "pyval list"
  | VDict "(string \<times> pyval) list"

text \<open>The question dictionary every generator returns has the same five keys; it is a
  record with one field per key.\<close>

record question =
  q_test_id :: int
  q_question_idx :: int
  q_domain :: string
  q_prompt :: string
  q_meta :: "(string \<times> pyval) list"

text \<open>The solver returns an \<open>int\<close>, a \<open>str\<close> or a pair of \<open>int\<close>s, by domain.\<close>

datatype answer = AInt int | AStr string | APair int int

definition NUM_TESTS :: int where
  "NUM_TESTS = 1000"

definition QUESTIONS_PER_TEST :: int where
  "QUESTIONS_PER_TEST = 100"

text \<open>The non-ASCII glyphs of the source, as their UTF-8 bytes.\<close>

definition en_dash :: string where "en_dash = [CHR 0xE2, CHR 0x80, CHR 0x93]"
definition middle_dot :: string where "middle_dot = [CHR 0xC2, CHR 0xB7]"
definition times_sign :: string where "times_sign = [CHR 0xC3, CHR 0x97]"
definition degree_sign :: string where "degree_sign = [CHR 0xC2, CHR 0xB0]"
definition minus_sign :: string where "minus_sign = [CHR 0xE2, CHR 0x88, CHR 0x92]"
definition sub_one :: string where "sub_one = [CHR 0xE2, CHR 0x82, CHR 0x81]"
definition sub_two :: string where "sub_two = [CHR 0xE2, CHR 0x82, CHR 0x82]"
definition arrow_left :: string where "arrow_left = [CHR 0xE2, CHR 0x86, CHR 0x90]"
definition arrow_up :: string where "arrow_up = [CHR 0xE2, CHR 0x86, CHR 0x91]"
definition arrow_right :: string where "arrow_right = [CHR 0xE2, CHR 0x86, CHR 0x92]"
definition arrow_down :: string where "arrow_down = [CHR 0xE2, CHR 0x86, CHR 0x93]"
definition arrow_nw :: string where "arrow_nw = [CHR 0xE2, CHR 0x86, CHR 0x96]"
definition arrow_ne :: string where "arrow_ne = [CHR 0xE2, CHR 0x86, CHR 0x97]"
definition arrow_se :: string where "arrow_se = [CHR 0xE2, CHR 0x86, CHR 0x98]"
definition arrow_sw :: string where "arrow_sw = [CHR 0xE2, CHR 0x86, CHR 0x99]"
definition black_square :: string where "black_square = [CHR 0xE2, CHR 0x96, CHR 0xA0]"
definition black_triangle :: string where "black_triangle = [CHR 0xE2, CHR 0x96, CHR 0xB2]"
definition black_diamond :: string where "black_diamond = [CHR 0xE2, CHR 0x97, CHR 0x86]"
definition white_circle :: string where "white_circle = [CHR 0xE2, CHR 0x97, CHR 0x8B]"
definition black_circle :: string where "black_circle = [CHR 0xE2, CHR 0x97, CHR 0x8F]"
definition half_circle :: string where "half_circle = [CHR 0xE2, CHR 0x97, CHR 0x90]"
definition black_star :: string where "black_star = [CHR 0xE2, CHR 0x98, CHR 0x85]"
definition saltire :: string where "saltire = [CHR 0xE2, CHR 0x9C, CHR 0x95]"
definition greek_cross :: string where "greek_cross = [CHR 0xE2, CHR 0x9C, CHR 0x9A]"

section \<open>The solver (vireon\_mensa\_solver.py)\<close>

text \<open>Source names starting with an underscore lose it: \<open>_solve_numeric\<close> is
  \<open>solve_numeric\<close>, and so on.\<close>

definition ensure_valid_indices :: "int \<Rightarrow> int \<Rightarrow> error + unit" where
  "ensure_valid_indices test_id question_idx =
     (if \<not> (1 \<le> test_id \<and> test_id \<le> NUM_TESTS)
        then Inl (ValueError (''test_id must be in 1..'' @ str NUM_TESTS))
      else if \<not> (1 \<le> question_idx \<and> question_idx \<le> QUESTIONS_PER_TEST)
        then Inl (ValueError (''question_idx must be in 1..'' @ str QUESTIONS_PER_TEST))
      else Inr ())"

text \<open>The loop over the tuple \<open>(2, 3, 5, 7)\<close> with its early return.\<close>

fun is_prime_like_loop :: "int \<Rightarrow> int list \<Rightarrow> bool" where
  "is_prime_like_loop n [] = True"
| "is_prime_like_loop n (d # ds) = (if n mod d = 0 then False else is_prime_like_loop n ds)"

definition is_prime_like :: "int \<Rightarrow> bool" where
  "is_prime_like n = is_prime_like_loop n [2, 3, 5, 7]"

text \<open>\<open>int(n ** 0.5)\<close> goes through a float; on the integers the solver passes
  (\<open>2 \<le> n \<le> 100\<close>) it is the integer square root, the number of \<open>r \<ge> 1\<close> with
  \<open>r * r \<le> n\<close>.\<close>

definition floor_sqrt :: "int \<Rightarrow> int" where
  "floor_sqrt n = int (length (filter (\<lambda>r. r * r \<le> nat n) [1..<Suc (nat n)]))"

text \<open>The \<open>while f <= r\<close> loop of \<open>_is_prime\<close>; \<open>f\<close> enters as 3 and only grows, so
  \<open>n % f\<close> never divides by zero.\<close>

function is_prime_loop :: "int \<Rightarrow> int \<Rightarrow> int \<Rightarrow> bool" where
  "is_prime_loop n f r =
     (if f \<le> r then (if n mod f = 0 then False else is_prime_loop n (f + 2) r) else True)"
  by pat_completeness auto
termination
  by (relation "measure (\<lambda>(n, f, r). nat (r + 1 - f))") auto

declare is_prime_loop.simps [simp del]

definition is_prime :: "int \<Rightarrow> bool" where
  "is_prime n =
     (if n < 2 then False
      else if n mod 2 = 0 then n = 2
      else (let f = 3; r = floor_sqrt n in is_prime_loop n f r))"

subsection \<open>Domain 1: numeric sequences (Q 1-15)\<close>

definition solve_numeric :: "int \<Rightarrow> int \<Rightarrow> error + answer" where
  "solve_numeric test_id question_idx =
     (let local = question_idx;
          length' = 7;
          base = (3 * test_id + 5 * local) mod 97 + 10;
          alpha = (2 * test_id + local) mod 11 + 1;
          beta = (test_id + 3 * local) mod 7 + 1;
          even_offset = (test_id * local) mod 9;
          odd_offset = (test_id + local) mod 9;
          seq = foldl (\<lambda>seq n.
                  let k = n + 1;
                      val = base + alpha * k + beta * (k * k);
                      val = (if k mod 2 = 0 then val + even_offset else val + odd_offset)
                  in seq @ [val]) [] [0..length' - 1];
          missing_pos = 2 + (local mod 3)
      in bindE (py_index seq missing_pos) (\<lambda>x. Inr (AInt x)))"

subsection \<open>Domain 2: logic propositions (Q 16-25)\<close>

definition solve_logic :: "int \<Rightarrow> int \<Rightarrow> error + answer" where
  "solve_logic test_id question_idx =
     (let local = question_idx - 15;
          pattern_type = (test_id + local) mod 4;
          p = (test_id mod 2 = 0);
          q = (local mod 3 = 0);
          r = is_prime_like (test_id + local);
          val = (if pattern_type = 0 then (p \<and> q) \<or> (\<not> r)
                 else if pattern_type = 1 then (\<not> (p \<and> r)) \<or> (q \<noteq> r)
                 else if pattern_type = 2 then (p \<noteq> q) \<and> (q \<or> r)
                 else (\<not> (p \<or> q)) \<or> ((\<not> p) \<and> r))
      in Inr (AStr (if val then ''TRUE'' else ''FALSE'')))"

subsection \<open>Domain 3: dual arrow cycles (Q 26-35)\<close>

definition solve_arrows :: "int \<Rightarrow> int \<Rightarrow> error + answer" where
  "solve_arrows test_id question_idx =
     (let local = question_idx - 25;
          primary = [arrow_up, arrow_right, arrow_down, arrow_left];
          secondary = [arrow_nw, arrow_ne, arrow_se, arrow_sw];
          N1 = 7 * test_id + 11 * local;
          N2 = 5 * test_id - 3 * local
      in bindE (py_index primary ((N1 - 1) mod 4)) (\<lambda>A.
         bindE (py_index secondary ((N2 - 1) mod 4)) (\<lambda>B.
         Inr (AStr (''('' @ A @ '', '' @ B @ '')'')))))"

subsection \<open>Domain 4: letter analogies (Q 36-45)\<close>

text \<open>\<open>chr(ord('A') + (i % 26))\<close>: the argument of \<open>chr\<close> lies in 65..90, an ASCII
  capital, so \<open>chr\<close> cannot raise and the result is one byte.\<close>

definition enc :: "int \<Rightarrow> string" where
  "enc i = [char_of (nat (65 + (i mod 26)))]"

text \<open>The local variables \<open>a\<close>, \<open>b\<close>, \<open>x1\<close>, \<open>x2\<close> of \<open>_solve_letter\<close>, in the
  order the function computes them.\<close>

definition solve_letter_locals :: "int \<Rightarrow> int \<Rightarrow> int \<times> int \<times> int \<times> int" where
  "solve_letter_locals test_id question_idx =
     (let local = question_idx - 35;
          a = (2 * test_id + 1) mod 26;
          a = (if a mod 2 = 0 then (a + 1) mod 26 else a);
          b = (3 * local + test_id) mod 26;
          x1 = (5 * test_id + local) mod 26;
          x2 = (x1 + 13) mod 26
      in (a, b, x1, x2))"

definition solve_letter :: "int \<Rightarrow> int \<Rightarrow> error + answer" where
  "solve_letter test_id question_idx =
     (case solve_letter_locals test_id question_idx of (a, b, x1, x2) \<Rightarrow>
        let answer_index = (a * x2 + b) mod 26
        in Inr (AStr (enc answer_index)))"

subsection \<open>Domain 5: word-style arithmetic stories (Q 46-55)\<close>

definition solve_word :: "int \<Rightarrow> int \<Rightarrow> error + answer" where
  "solve_word test_id question_idx =
     (let local = question_idx - 45;
          base_items = 4 + (test_id mod 9);
          daily_gain = 1 + (local mod 5);
          days = 3 + ((test_id + local) mod 4);
          group = 2 + (test_id mod 4);
          bonus_factor = 1 + ((test_id * local) mod 3)
      in bindE (py_mod (base_items + daily_gain) (group + 1)) (\<lambda>loss.
         let total = base_items + daily_gain * days;
             total = total * bonus_factor;
             total = total - loss
         in bindE (py_floordiv total group) (\<lambda>x. Inr (AInt x))))"

subsection \<open>Domain 6: Raven-style matrices (Q 56-70)\<close>

text \<open>The nested function \<open>cell_symbol(r, c)\<close>, the same text in the solver and in the
  generator, with the variables it closes over as parameters. The f-string reads
  \<open>shapes[s_idx]\<close>, \<open>fills[f_idx]\<close>, \<open>orientations[o_idx]\<close> in this order.\<close>

definition cell_symbol ::
  "string list \<Rightarrow> string list \<Rightarrow> string list \<Rightarrow> int \<Rightarrow> int \<Rightarrow> int \<Rightarrow> int \<Rightarrow> int \<Rightarrow> error + string" where
  "cell_symbol shapes orientations fills base_idx base_orient base_fill r c =
     bindE (py_mod (base_idx + r + 2 * c) (int (length shapes))) (\<lambda>s_idx.
     let o_idx = (base_orient + 2 * r + c) mod 4;
         f_idx = (base_fill + r + c) mod 3
     in bindE (py_index shapes s_idx) (\<lambda>shape.
        bindE (py_index fills f_idx) (\<lambda>fill.
        bindE (py_index orientations o_idx) (\<lambda>orientation.
        Inr (shape @ fill @ ''('' @ orientation @ '')'')))))"

definition solve_raven :: "int \<Rightarrow> int \<Rightarrow> error + answer" where
  "solve_raven test_id question_idx =
     (let local = question_idx - 55;
          shapes = [black_triangle, black_square, black_circle, black_star];
          orientations = [''0'' @ degree_sign, ''90'' @ degree_sign,
                          ''180'' @ degree_sign, ''270'' @ degree_sign];
          fills = [white_circle, half_circle, black_circle]
      in bindE (py_mod (test_id + local) (int (length shapes))) (\<lambda>base_idx.
         let base_orient = (2 * test_id + local) mod 4;
             base_fill = (3 * test_id + 2 * local) mod 3;
             missing_mode = (test_id + local) mod 3;
             (mr, mc) = (if missing_mode = 0 then (2, 2)
                         else if missing_mode = 1 then (1, 1)
                         else (0, 2))
         in bindE (cell_symbol shapes orientations fills base_idx base_orient base_fill mr mc)
              (\<lambda>s. Inr (AStr s))))"

subsection \<open>Domain 7: base conversion puzzles (Q 71-80)\<close>

definition solve_base :: "int \<Rightarrow> int \<Rightarrow> error + answer" where
  "solve_base test_id question_idx =
     (let local = question_idx - 70;
          N = 200 + 17 * test_id + 11 * local
      in Inr (AInt N))"

subsection \<open>Domain 8: shape sequences (Q 81-90)\<close>

definition solve_shape_sequence :: "int \<Rightarrow> int \<Rightarrow> error + answer" where
  "solve_shape_sequence test_id question_idx =
     (let local = question_idx - 80;
          modulus_A = 5 + ((test_id + local) mod 5);
          modulus_B = 6 + ((2 * test_id + local) mod 5)
      in bindE (py_mod (test_id + 2 * local) modulus_A) (\<lambda>mA.
         let base_A = 1 + mA
         in bindE (py_mod (2 * test_id + 3 * local) modulus_B) (\<lambda>mB.
         let base_B = 1 + mB
         in bindE (py_mod (3 * test_id + local) modulus_A) (\<lambda>sA.
         let step_A = 1 + sA
         in bindE (py_mod (4 * test_id + 2 * local) modulus_B) (\<lambda>sB.
         let step_B = 1 + sB;
             k = 5
         in bindE (py_mod (base_A + (k - 1) * step_A) modulus_A) (\<lambda>a5.
            bindE (py_mod (base_B + (k - 1) * step_B) modulus_B) (\<lambda>b5.
            let a5 = (if a5 = 0 then modulus_A else a5);
                b5 = (if b5 = 0 then modulus_B else b5)
            in Inr (APair a5 b5))))))))"

subsection \<open>Domain 9: self-referential questions (Q 91-100)\<close>

definition basic_self_ref_digit_mode :: "int \<Rightarrow> int \<Rightarrow> int \<times> int" where
  "basic_self_ref_digit_mode test_id question_idx =
     (let local = question_idx - 90;
          digit = (test_id + local) mod 10;
          mode = (test_id + 2 * local) mod 4
      in (digit, mode))"

definition has_digit :: "int \<Rightarrow> int \<Rightarrow> bool" where
  "has_digit n d = str_contains (str n) (str d)"

definition self_ref_count_for_digit_mode :: "int \<Rightarrow> int \<Rightarrow> int" where
  "self_ref_count_for_digit_mode digit mode =
     foldl (\<lambda>count n.
        let has_d = has_digit n digit;
            cond = (if mode = 0 then has_d
                    else if mode = 1 then has_d \<and> (n mod 2 = 0)
                    else if mode = 2 then has_d \<and> is_prime n
                    else has_d \<or> (n mod 9 = 0))
        in if cond then count + 1 else count) 0 [1..QUESTIONS_PER_TEST + 1 - 1]"

definition solve_self_referential :: "int \<Rightarrow> int \<Rightarrow> error + answer" where
  "solve_self_referential test_id question_idx =
     (case basic_self_ref_digit_mode test_id question_idx of (digit, mode) \<Rightarrow>
        Inr (AInt (self_ref_count_for_digit_mode digit mode)))"

subsection \<open>Public entry point\<close>

definition solve_question :: "int \<Rightarrow> int \<Rightarrow> error + answer" where
  "solve_question test_id question_idx =
     bindE (ensure_valid_indices test_id question_idx) (\<lambda>_.
       if 1 \<le> question_idx \<and> question_idx \<le> 15 then solve_numeric test_id question_idx
       else if 16 \<le> question_idx \<and> question_idx \<le> 25 then solve_logic test_id question_idx
       else if 26 \<le> question_idx \<and> question_idx \<le> 35 then solve_arrows test_id question_idx
       else if 36 \<le> question_idx \<and> question_idx \<le> 45 then solve_letter test_id question_idx
       else if 46 \<le> question_idx \<and> question_idx \<le> 55 then solve_word test_id question_idx
       else if 56 \<le> question_idx \<and> question_idx \<le> 70 then solve_raven test_id question_idx
       else if 71 \<le> question_idx \<and> question_idx \<le> 80 then solve_base test_id question_idx
       else if 81 \<le> question_idx \<and> question_idx \<le> 90
         then solve_shape_sequence test_id question_idx
       else solve_self_referential test_id question_idx)"

section \<open>The generator (vireon\_mensa\_engine.py)\<close>

definition nl :: string where "nl = [CHR 0x0A]"
definition apostrophe :: string where "apostrophe = [CHR 0x27]"

text \<open>\<open>xs[i] = v\<close>: the list with position \<open>i\<close> replaced, or IndexError.\<close>

definition py_setitem :: "'a list \<Rightarrow> int \<Rightarrow> 'a \<Rightarrow> error + 'a list" where
  "py_setitem xs i v =
     (if 0 \<le> i \<and> i < int (length xs) then Inr (xs[nat i := v])
      else if i < 0 \<and> - int (length xs) \<le> i then Inr (xs[nat (int (length xs) + i) := v])
      else Inl IndexError)"

text \<open>A \<open>for\<close> loop whose body may raise: the state is threaded through the items and
  the first error ends the loop.\<close>

fun foldE :: "('b \<Rightarrow> 'a \<Rightarrow> error + 'b) \<Rightarrow> 'b \<Rightarrow> 'a list \<Rightarrow> error + 'b" where
  "foldE f s [] = Inr s"
| "foldE f s (x # xs) = bindE (f s x) (\<lambda>s'. foldE f s' xs)"

subsection \<open>Domain 1: numeric sequences (Q 1-15)\<close>

definition generate_numeric_question :: "int \<Rightarrow> int \<Rightarrow> error + question" where
  "generate_numeric_question test_id question_idx =
     (let local = question_idx;
          length' = 7;
          base = (3 * test_id + 5 * local) mod 97 + 10;
          alpha = (2 * test_id + local) mod 11 + 1;
          beta = (test_id + 3 * local) mod 7 + 1;
          even_offset = (test_id * local) mod 9;
          odd_offset = (test_id + local) mod 9;
          seq = foldl (\<lambda>seq n.
                  let k = n + 1;
                      val = base + alpha * k + beta * (k * k);
                      val = (if k mod 2 = 0 then val + even_offset else val + odd_offset)
                  in seq @ [val]) [] [0..length' - 1];
          missing_pos = 2 + (local mod 3);
          shown = foldl (\<lambda>shown (i, x).
                    if int i = missing_pos then shown @ [''?''] else shown @ [str x])
                  [] (enumerate 0 seq);
          prompt = ''Test '' @ str test_id @ '', Q'' @ str question_idx
                   @ '' (Numeric sequence '' @ en_dash @ '' hard):'' @ nl
                   @ ''Fill in the missing number. The rule may depend on position,'' @ nl
                   @ ''parity, and more than one type of growth.'' @ nl @ nl
                   @ ''Sequence: '' @ join '', '' shown
      in Inr \<lparr> q_test_id = test_id,
               q_question_idx = question_idx,
               q_domain = ''numeric_sequence_hard'',
               q_prompt = prompt,
               q_meta = [(''local_index'', VInt local),
                         (''length'', VInt length'),
                         (''pattern_hint'',
                          VStr ''mix of linear, quadratic, and parity-based offsets'')] \<rparr>)"

subsection \<open>Domain 2: logic propositions (Q 16-25)\<close>

definition generate_logic_question :: "int \<Rightarrow> int \<Rightarrow> error + question" where
  "generate_logic_question test_id question_idx =
     (let local = question_idx - 15;
          pattern_type = (test_id + local) mod 4;
          stmt = (if pattern_type = 0 then ''(p AND q) OR (NOT r)''
                  else if pattern_type = 1 then ''IF (p AND r) THEN (q XOR r)''
                  else if pattern_type = 2 then ''(p XOR q) AND (q OR r)''
                  else ''IF (p OR q) THEN (NOT p AND r)'');
          pseudo_prime_def =
            ''Call an integer '' @ apostrophe @ ''prime-like'' @ apostrophe
            @ '' here if it has no divisors in ''
            @ ''the set {2, 3, 5, 7} other than 1.'';
          prompt = ''Test '' @ str test_id @ '', Q'' @ str question_idx
                   @ '' (Nested logic '' @ en_dash @ '' hard):'' @ nl
                   @ ''Let p be: '' @ apostrophe @ ''test id '' @ str test_id @ '' is even''
                   @ apostrophe @ ''.'' @ nl
                   @ ''Let q be: '' @ apostrophe @ ''local index '' @ str local @ '' (1''
                   @ en_dash @ ''10 in this block) is a multiple of 3'' @ apostrophe @ ''.'' @ nl
                   @ ''Let r be: '' @ apostrophe @ ''test_id + local_index is prime-like''
                   @ apostrophe @ ''.'' @ nl @ nl
                   @ pseudo_prime_def @ nl @ nl
                   @ ''Consider the compound statement:'' @ nl
                   @ ''    '' @ stmt @ nl @ nl
                   @ ''Is this statement TRUE or FALSE?''
      in Inr \<lparr> q_test_id = test_id,
               q_question_idx = question_idx,
               q_domain = ''nested_logic_hard'',
               q_prompt = prompt,
               q_meta = [(''local_index'', VInt local),
                         (''statement_form'', VStr stmt),
                         (''prime_like_rule'', VStr ''no divisors in {2,3,5,7} besides 1'')] \<rparr>)"

subsection \<open>Domain 3: symbolic arrow cycles (Q 26-35)\<close>

definition generate_spatial_like_question :: "int \<Rightarrow> int \<Rightarrow> error + question" where
  "generate_spatial_like_question test_id question_idx =
     (let local = question_idx - 25;
          primary = [arrow_up, arrow_right, arrow_down, arrow_left];
          secondary = [arrow_nw, arrow_ne, arrow_se, arrow_sw];
          N1 = 7 * test_id + 11 * local;
          N2 = 5 * test_id - 3 * local;
          prompt = ''Test '' @ str test_id @ '', Q'' @ str question_idx
                   @ '' (Dual-arrow cycle '' @ en_dash @ '' hard):'' @ nl
                   @ ''Consider two infinite repeating sequences:'' @ nl
                   @ ''  Primary:   '' @ join '', '' primary @ '' (then repeats)'' @ nl
                   @ ''  Secondary: '' @ join '', '' secondary @ '' (then repeats)'' @ nl @ nl
                   @ ''At position N'' @ sub_one @ '' = 7'' @ middle_dot @ str test_id
                   @ '' + 11'' @ middle_dot @ str local @ '' in the Primary sequence,'' @ nl
                   @ ''and position N'' @ sub_two @ '' = 5'' @ middle_dot @ str test_id
                   @ '' '' @ minus_sign @ '' 3'' @ middle_dot @ str local
                   @ '' in the Secondary sequence,'' @ nl
                   @ ''a pair of arrows (A, B) is observed.'' @ nl @ nl
                   @ ''What is the ordered pair (A, B)?''
      in Inr \<lparr> q_test_id = test_id,
               q_question_idx = question_idx,
               q_domain = ''dual_arrow_cycle_hard'',
               q_prompt = prompt,
               q_meta = [(''local_index'', VInt local),
                         (''primary_cycle'', VList (map VStr primary)),
                         (''secondary_cycle'', VList (map VStr secondary)),
                         (''N1_expression'',
                          VStr (''7*'' @ str test_id @ '' + 11*'' @ str local)),
                         (''N2_expression'',
                          VStr (''5*'' @ str test_id @ '' - 3*'' @ str local))] \<rparr>)"

subsection \<open>Domain 4: letter analogies (Q 36-45)\<close>

text \<open>The local variables \<open>a\<close>, \<open>b\<close>, \<open>x1\<close>, \<open>x2\<close> of \<open>generate_letter_question\<close>.
  Its nested \<open>enc\<close> is the same function as the solver's.\<close>

definition generate_letter_locals :: "int \<Rightarrow> int \<Rightarrow> int \<times> int \<times> int \<times> int" where
  "generate_letter_locals test_id question_idx =
     (let local = question_idx - 35;
          a = (2 * test_id + 1) mod 26;
          a = (if a mod 2 = 0 then (a + 1) mod 26 else a);
          b = (3 * local + test_id) mod 26;
          x1 = (5 * test_id + local) mod 26;
          x2 = (x1 + 13) mod 26
      in (a, b, x1, x2))"

definition generate_letter_question :: "int \<Rightarrow> int \<Rightarrow> error + question" where
  "generate_letter_question test_id question_idx =
     (case generate_letter_locals test_id question_idx of (a, b, x1, x2) \<Rightarrow>
      let local = question_idx - 35;
          A1 = enc x1;
          B1 = enc ((a * x1 + b) mod 26);
          A2 = enc x2;
          prompt = ''Test '' @ str test_id @ '', Q'' @ str question_idx
                   @ '' (Letter analogy '' @ en_dash @ '' hard):'' @ nl
                   @ ''A secret code maps each letter to another letter according to'' @ nl
                   @ ''a fixed rule on its position in the alphabet.'' @ nl @ nl
                   @ ''Example:'' @ nl
                   @ ''    '' @ A1 @ '' '' @ arrow_right @ '' '' @ B1 @ nl @ nl
                   @ ''Using the same hidden rule, what letter does '' @ A2 @ '' map to?'' @ nl
                   @ ''(All letters are in A'' @ en_dash @ ''Z, positions taken modulo 26.)''
      in Inr \<lparr> q_test_id = test_id,
               q_question_idx = question_idx,
               q_domain = ''letter_analogy_hard'',
               q_prompt = prompt,
               q_meta = [(''local_index'', VInt local),
                         (''a_mod_26'', VInt a),
                         (''b_mod_26'', VInt b),
                         (''example_input_index'', VInt x1),
                         (''query_input_index'', VInt x2)] \<rparr>)"

subsection \<open>Domain 5: word-style arithmetic stories (Q 46-55)\<close>

definition generate_word_question :: "int \<Rightarrow> int \<Rightarrow> error + question" where
  "generate_word_question test_id question_idx =
     (let local = question_idx - 45;
          base_items = 4 + (test_id mod 9);
          daily_gain = 1 + (local mod 5);
          days = 3 + ((test_id + local) mod 4);
          group = 2 + (test_id mod 4);
          bonus_factor = 1 + ((test_id * local) mod 3)
      in bindE (py_mod (base_items + daily_gain) (group + 1)) (\<lambda>loss.
         let prompt = ''Test '' @ str test_id @ '', Q'' @ str question_idx
                   @ '' (Layered word problem '' @ en_dash @ '' hard):'' @ nl
                   @ ''A researcher starts with '' @ str base_items
                   @ '' experimental samples.'' @ nl
                   @ ''Each day, they create '' @ str daily_gain
                   @ '' new samples, and this continues ''
                   @ ''for '' @ str days @ '' days. After that, they multiply the total number of ''
                   @ ''samples they have by a '' @ apostrophe @ ''bonus factor'' @ apostrophe
                   @ '' of '' @ str bonus_factor @ ''.'' @ nl
                   @ ''Finally, they must discard exactly '' @ str loss
                   @ '' samples due to defects, ''
                   @ ''and then divide the remaining samples equally among '' @ str group
                   @ '' teams.'' @ nl @ nl
                   @ ''How many samples does each team receive?''
         in Inr \<lparr> q_test_id = test_id,
                  q_question_idx = question_idx,
                  q_domain = ''word_arithmetic_hard'',
                  q_prompt = prompt,
                  q_meta = [(''local_index'', VInt local),
                            (''base_items'', VInt base_items),
                            (''daily_gain'', VInt daily_gain),
                            (''days'', VInt days),
                            (''bonus_factor'', VInt bonus_factor),
                            (''loss'', VInt loss),
                            (''groups'', VInt group)] \<rparr>))"

subsection \<open>Domain 6: Raven-style matrices (Q 56-70)\<close>

definition generate_raven_matrix_question :: "int \<Rightarrow> int \<Rightarrow> error + question" where
  "generate_raven_matrix_question test_id question_idx =
     (let local = question_idx - 55;
          shapes = [black_triangle, black_square, black_circle, black_star];
          orientations = [''0'' @ degree_sign, ''90'' @ degree_sign,
                          ''180'' @ degree_sign, ''270'' @ degree_sign];
          fills = [white_circle, half_circle, black_circle]
      in bindE (py_mod (test_id + local) (int (length shapes))) (\<lambda>base_idx.
         let base_orient = (2 * test_id + local) mod 4;
             base_fill = (3 * test_id + 2 * local) mod 3;
             rule_type = (test_id + 2 * local) mod 4;
             missing_mode = (test_id + local) mod 3
         in bindE (foldE (\<lambda>grid r.
                     bindE (foldE (\<lambda>row c.
                              bindE (cell_symbol shapes orientations fills
                                       base_idx base_orient base_fill r c)
                                (\<lambda>s. Inr (row @ [s])))
                            [] [0..3 - 1]) (\<lambda>row.
                     Inr (grid @ [row])))
                   [] [0..3 - 1]) (\<lambda>grid.
            let missing_rc = (if missing_mode = 0 then (2, 2)
                              else if missing_mode = 1 then (1, 1)
                              else (0, 2));
                (mr, mc) = missing_rc
            in bindE (py_index grid mr) (\<lambda>row.
               bindE (py_setitem row mc '' ? '') (\<lambda>row.
               bindE (py_setitem grid mr row) (\<lambda>grid.
               bindE (foldE (\<lambda>grid_lines r.
                        bindE (py_index grid r) (\<lambda>row.
                        Inr (grid_lines @ [join '' | '' row])))
                      [] [0..3 - 1]) (\<lambda>grid_lines.
               let grid_text = join nl grid_lines;
                   hints = [''Row-wise, orientation changes in fixed increments.'',
                            ''Column-wise, fill levels behave like addition modulo 3.'',
                            ''Shapes drift systematically across rows and columns.'',
                            ''Some rows can be interpreted as an '' @ apostrophe @ ''xor''
                            @ apostrophe @ '' of feature patterns.'']
               in bindE (py_index hints rule_type) (\<lambda>hint.
                  let prompt = ''Test '' @ str test_id @ '', Q'' @ str question_idx
                        @ '' (Raven-style matrix '' @ en_dash @ '' hard):'' @ nl
                        @ ''Below is a 3'' @ times_sign
                        @ ''3 grid of abstract figures; one cell is replaced by ''
                        @ apostrophe @ ''?'' @ apostrophe @ ''.'' @ nl @ nl
                        @ grid_text @ nl @ nl
                        @ ''The grid obeys a consistent rule combining row and column changes''
                        @ nl
                        @ ''in shape, orientation, and fill.'' @ nl
                        @ ''Which figure should replace '' @ apostrophe @ ''?'' @ apostrophe
                        @ ''?'' @ nl @ nl
                        @ ''Hint: '' @ hint
                  in Inr \<lparr> q_test_id = test_id,
                           q_question_idx = question_idx,
                           q_domain = ''raven_matrix_hard'',
                           q_prompt = prompt,
                           q_meta = [(''local_index'', VInt local),
                                     (''rule_type'', VInt rule_type),
                                     (''missing_cell'',
                                      VDict [(''row'', VInt mr),
                                             (''col'', VInt mc)])] \<rparr>))))))))"

subsection \<open>Helper: integer to base representation\<close>

definition to_base_digits :: string where
  "to_base_digits = ''0123456789ABCDEFGHIJKLMNOPQRSTUVWXYZ''"

text \<open>The \<open>while x > 0\<close> loop of \<open>_to_base\<close>. It need not end (with \<open>base = 1\<close> the
  value of \<open>x\<close> never changes), so the loop is a partial function: \<open>None\<close> is a run
  that does not return, \<open>Some (Inl e)\<close> a raise, \<open>Some (Inr s)\<close> a returned string.\<close>

partial_function (option) to_base_loop :: "int \<Rightarrow> int \<Rightarrow> string \<Rightarrow> (error + string) option" where
  "to_base_loop x base out =
     (if x > 0 then
        (case bindE (py_mod x base) (\<lambda>d.
              bindE (py_index to_base_digits d) (\<lambda>c.
              bindE (py_floordiv x base) (\<lambda>x'.
              Inr (c # out, x')))) of
           Inl e \<Rightarrow> Some (Inl e)
         | Inr (out', x') \<Rightarrow> to_base_loop x' base out')
      else Some (Inr out))"

definition to_base :: "int \<Rightarrow> int \<Rightarrow> (error + string) option" where
  "to_base n base =
     (if n = 0 then Some (Inr ''0'')
      else (let out = []; x = n in to_base_loop x base out))"

definition bindP :: "(error + 'a) option \<Rightarrow> ('a \<Rightarrow> (error + 'b) option) \<Rightarrow> (error + 'b) option" where
  "bindP m f = (case m of None \<Rightarrow> None | Some (Inl e) \<Rightarrow> Some (Inl e) | Some (Inr x) \<Rightarrow> f x)"

subsection \<open>Domain 7: base conversion puzzles (Q 71-80)\<close>

definition generate_base_conversion_question :: "int \<Rightarrow> int \<Rightarrow> (error + question) option" where
  "generate_base_conversion_question test_id question_idx =
     (let local = question_idx - 70;
          base_x = 5 + ((test_id + local) mod 12);
          base_y = 5 + ((2 * test_id + local) mod 12);
          base_y = (if base_y = base_x
                    then (let base_y = 5 + ((3 * test_id + local) mod 12)
                          in if base_y = base_x then 16 else base_y)
                    else base_y);
          N = 200 + 17 * test_id + 11 * local
      in bindP (to_base N base_x) (\<lambda>repr_x.
         bindP (to_base N base_y) (\<lambda>repr_y.
         let base_z = 5 + ((test_id + 2 * local) mod 12)
         in bindP (to_base N base_z) (\<lambda>repr_z.
         let prompt = ''Test '' @ str test_id @ '', Q'' @ str question_idx
                   @ '' (Base conversion '' @ en_dash @ '' hard):'' @ nl
                   @ ''A certain integer N is written as '' @ repr_x @ '' in base ''
                   @ str base_x @ '' and as ''
                   @ repr_y @ '' in base '' @ str base_y @ ''. When expressed in base ''
                   @ str base_z @ '', it ''
                   @ ''would be written as '' @ repr_z @ ''.'' @ nl @ nl
                   @ ''All three representations refer to the same integer N.'' @ nl
                   @ ''What is the value of N when written in base 10 (ordinary decimal)?''
         in Some (Inr \<lparr> q_test_id = test_id,
                        q_question_idx = question_idx,
                        q_domain = ''base_conversion_hard'',
                        q_prompt = prompt,
                        q_meta = [(''local_index'', VInt local),
                                  (''base_x'', VInt base_x),
                                  (''base_y'', VInt base_y),
                                  (''base_z'', VInt base_z),
                                  (''repr_x'', VStr repr_x),
                                  (''repr_y'', VStr repr_y),
                                  (''repr_z'', VStr repr_z)] \<rparr>)))))"

subsection \<open>Domain 8: shape sequences (Q 81-90)\<close>

definition generate_shape_sequence_question :: "int \<Rightarrow> int \<Rightarrow> error + question" where
  "generate_shape_sequence_question test_id question_idx =
     (let local = question_idx - 80;
          modulus_A = 5 + ((test_id + local) mod 5);
          modulus_B = 6 + ((2 * test_id + local) mod 5)
      in bindE (py_mod (test_id + 2 * local) modulus_A) (\<lambda>mA.
         let base_A = 1 + mA
         in bindE (py_mod (2 * test_id + 3 * local) modulus_B) (\<lambda>mB.
         let base_B = 1 + mB
         in bindE (py_mod (3 * test_id + local) modulus_A) (\<lambda>sA.
         let step_A = 1 + sA
         in bindE (py_mod (4 * test_id + 2 * local) modulus_B) (\<lambda>sB.
         let step_B = 1 + sB
         in bindE (py_index [black_circle, black_square, black_triangle]
                     ((test_id + local) mod 3)) (\<lambda>shapeA.
            bindE (py_index [black_diamond, greek_cross, saltire]
                     ((2 * test_id + local) mod 3)) (\<lambda>shapeB.
            bindE (foldE (\<lambda>(counts_A, counts_B) k.
                     bindE (py_mod (base_A + (k - 1) * step_A) modulus_A) (\<lambda>a.
                     bindE (py_mod (base_B + (k - 1) * step_B) modulus_B) (\<lambda>b.
                     let a = (if a = 0 then modulus_A else a);
                         b = (if b = 0 then modulus_B else b)
                     in Inr (counts_A @ [a], counts_B @ [b]))))
                   ([], []) [1..5 - 1]) (\<lambda>(counts_A, counts_B).
            bindE (foldE (\<lambda>lines i.
                     bindE (py_index counts_A i) (\<lambda>cA.
                     bindE (py_index counts_B i) (\<lambda>cB.
                     Inr (lines @ [''Figure '' @ str (i + 1) @ '': '' @ str cA @ '' ''
                                   @ shapeA @ '' symbols and ''
                                   @ str cB @ '' '' @ shapeB @ '' symbols.'']))))
                   [] [0..4 - 1]) (\<lambda>lines.
            let sequence_text = join nl lines;
                prompt = ''Test '' @ str test_id @ '', Q'' @ str question_idx
                   @ '' (Next figure '' @ en_dash @ '' coupled modulo):'' @ nl
                   @ ''Consider the sequence of abstract figures:'' @ nl @ nl
                   @ sequence_text @ nl @ nl
                   @ ''The counts of '' @ shapeA @ '' and '' @ shapeB
                   @ '' symbols each follow a modular'' @ nl
                   @ ''arithmetic rule (but possibly with different moduli and steps).''
                   @ nl @ nl
                   @ ''In Figure 5, how many '' @ shapeA @ '' symbols and how many ''
                   @ shapeB @ '' symbols ''
                   @ ''should appear?''
            in Inr \<lparr> q_test_id = test_id,
                     q_question_idx = question_idx,
                     q_domain = ''shape_sequence_coupled_modulo_hard'',
                     q_prompt = prompt,
                     q_meta = [(''local_index'', VInt local),
                               (''modulus_A'', VInt modulus_A),
                               (''modulus_B'', VInt modulus_B),
                               (''shapeA'', VStr shapeA),
                               (''shapeB'', VStr shapeB),
                               (''first_four_A'', VList (map VInt counts_A)),
                               (''first_four_B'', VList (map VInt counts_B)),
                               (''rule_hint'',
                                VStr ''two coupled linear progressions modulo different bases'')] \<rparr>
            )))))))))"

subsection \<open>Domain 9: self-referential questions (Q 91-100)\<close>

definition generate_self_referential_question :: "int \<Rightarrow> int \<Rightarrow> error + question" where
  "generate_self_referential_question test_id question_idx =
     (let local = question_idx - 90;
          digit = (test_id + local) mod 10;
          mode = (test_id + 2 * local) mod 4;
          condition_text =
            (if mode = 0 then
               ''contain the digit '' @ str digit @ '' at least once (in decimal notation)''
             else if mode = 1 then
               ''contain the digit '' @ str digit @ '' at least once AND are even numbers''
             else if mode = 2 then
               ''contain the digit '' @ str digit @ '' at least once AND are prime numbers''
             else
               ''contain the digit '' @ str digit @ '' at least once OR are divisible by 9'');
          prompt = ''Test '' @ str test_id @ '', Q'' @ str question_idx
                   @ '' (Self-referential '' @ en_dash @ '' hard):'' @ nl
                   @ ''In this test, questions are numbered from 1 to ''
                   @ str QUESTIONS_PER_TEST @ ''.'' @ nl
                   @ ''Consider those question numbers that '' @ condition_text @ ''.'' @ nl @ nl
                   @ ''How many such question numbers are there?''
      in Inr \<lparr> q_test_id = test_id,
               q_question_idx = question_idx,
               q_domain = ''self_referential_hard'',
               q_prompt = prompt,
               q_meta = [(''local_index'', VInt local),
                         (''digit'', VInt digit),
                         (''mode'', VInt mode),
                         (''range'', VTuple [VInt 1, VInt QUESTIONS_PER_TEST])] \<rparr>)"

subsection \<open>Dispatcher\<close>

definition generate_question :: "int \<Rightarrow> int \<Rightarrow> (error + question) option" where
  "generate_question test_id question_idx =
     (if \<not> (1 \<le> test_id \<and> test_id \<le> NUM_TESTS)
        then Some (Inl (ValueError (''test_id must be in 1..'' @ str NUM_TESTS)))
      else if \<not> (1 \<le> question_idx \<and> question_idx \<le> QUESTIONS_PER_TEST)
        then Some (Inl (ValueError (''question_idx must be in 1..'' @ str QUESTIONS_PER_TEST)))
      else if 1 \<le> question_idx \<and> question_idx \<le> 15
        then Some (generate_numeric_question test_id question_idx)
      else if 16 \<le> question_idx \<and> question_idx \<le> 25
        then Some (generate_logic_question test_id question_idx)
      else if 26 \<le> question_idx \<and> question_idx \<le> 35
        then Some (generate_spatial_like_question test_id question_idx)
      else if 36 \<le> question_idx \<and> question_idx \<le> 45
        then Some (generate_letter_question test_id question_idx)
      else if 46 \<le> question_idx \<and> question_idx \<le> 55
        then Some (generate_word_question test_id question_idx)
      else if 56 \<le> question_idx \<and> question_idx \<le> 70
        then Some (generate_raven_matrix_question test_id question_idx)
      else if 71 \<le> question_idx \<and> question_idx \<le> 80
        then generate_base_conversion_question test_id question_idx
      else if 81 \<le> question_idx \<and> question_idx \<le> 90
        then Some (generate_shape_sequence_question test_id question_idx)
      else Some (generate_self_referential_question test_id question_idx))"

section \<open>Notions of the specification\<close>

text \<open>These definitions follow the words of the specification, not the code; the
  theorems below compare the code with them.\<close>

definition valid_key :: "int \<Rightarrow> int \<Rightarrow> bool" where
  "valid_key test_id question_idx =
     (1 \<le> test_id \<and> test_id \<le> 1000 \<and> 1 \<le> question_idx \<and> question_idx \<le> 100)"

datatype domain =
    NumericSequence
  | NestedLogic
  | ArrowCycle
  | LetterAnalogy
  | WordArithmetic
  | RavenMatrix
  | BaseConversion
  | ShapeSequence
  | SelfReferential

text \<open>The band partition of the specification, as a table of closed ranges.\<close>

definition bands :: "(int \<times> int \<times> domain) list" where
  "bands = [(1, 15, NumericSequence), (16, 25, NestedLogic), (26, 35, ArrowCycle),
            (36, 45, LetterAnalogy), (46, 55, WordArithmetic), (56, 70, RavenMatrix),
            (71, 80, BaseConversion), (81, 90, ShapeSequence), (91, 100, SelfReferential)]"

definition band_of :: "int \<Rightarrow> domain option" where
  "band_of question_idx =
     map_option (\<lambda>(lo, hi, d). d) (find (\<lambda>(lo, hi, d). lo \<le> question_idx \<and> question_idx \<le> hi) bands)"

text \<open>The handler pair of each domain: the generator's function and the solver's.\<close>

fun generator_handler :: "domain \<Rightarrow> int \<Rightarrow> int \<Rightarrow> (error + question) option" where
  "generator_handler NumericSequence t q = Some (generate_numeric_question t q)"
| "generator_handler NestedLogic t q = Some (generate_logic_question t q)"
| "generator_handler ArrowCycle t q = Some (generate_spatial_like_question t q)"
| "generator_handler LetterAnalogy t q = Some (generate_letter_question t q)"
| "generator_handler WordArithmetic t q = Some (generate_word_question t q)"
| "generator_handler RavenMatrix t q = Some (generate_raven_matrix_question t q)"
| "generator_handler BaseConversion t q = generate_base_conversion_question t q"
| "generator_handler ShapeSequence t q = Some (generate_shape_sequence_question t q)"
| "generator_handler SelfReferential t q = Some (generate_self_referential_question t q)"

fun solver_handler :: "domain \<Rightarrow> int \<Rightarrow> int \<Rightarrow> error + answer" where
  "solver_handler NumericSequence t q = solve_numeric t q"
| "solver_handler NestedLogic t q = solve_logic t q"
| "solver_handler ArrowCycle t q = solve_arrows t q"
| "solver_handler LetterAnalogy t q = solve_letter t q"
| "solver_handler WordArithmetic t q = solve_word t q"
| "solver_handler RavenMatrix t q = solve_raven t q"
| "solver_handler BaseConversion t q = solve_base t q"
| "solver_handler ShapeSequence t q = solve_shape_sequence t q"
| "solver_handler SelfReferential t q = solve_self_referential t q"

text \<open>The numeric sequence \<open>a_k = base + alpha k + beta k^2 + parity_offset(k)\<close> for
  \<open>k = 1..7\<close>, and the 0-based hidden position.\<close>

definition seq_term :: "int \<Rightarrow> int \<Rightarrow> int \<Rightarrow> int" where
  "seq_term test_id local k =
     ((3 * test_id + 5 * local) mod 97 + 10)
     + ((2 * test_id + local) mod 11 + 1) * k
     + ((test_id + 3 * local) mod 7 + 1) * k\<^sup>2
     + (if even k then (test_id * local) mod 9 else (test_id + local) mod 9)"

definition numeric_sequence :: "int \<Rightarrow> int \<Rightarrow> int list" where
  "numeric_sequence test_id local = map (seq_term test_id local) [1, 2, 3, 4, 5, 6, 7]"

definition hidden_position :: "int \<Rightarrow> nat" where
  "hidden_position local = nat (2 + local mod 3)"

text \<open>The four logic templates, with \<open>\<longrightarrow>\<close> the material implication, and the
  prime-like predicate.\<close>

definition no_small_divisor :: "int \<Rightarrow> bool" where
  "no_small_divisor n = (\<not> 2 dvd n \<and> \<not> 3 dvd n \<and> \<not> 5 dvd n \<and> \<not> 7 dvd n)"

definition logic_template :: "int \<Rightarrow> bool \<Rightarrow> bool \<Rightarrow> bool \<Rightarrow> bool" where
  "logic_template i p q r =
     (if i = 0 then (p \<and> q) \<or> \<not> r
      else if i = 1 then (p \<and> r) \<longrightarrow> (q \<noteq> r)
      else if i = 2 then (p \<noteq> q) \<and> (q \<or> r)
      else (p \<or> q) \<longrightarrow> (\<not> p \<and> r))"

text \<open>The two arrow cycles and the element at a 1-based position.\<close>

definition primary_cycle :: "string list" where
  "primary_cycle = [arrow_up, arrow_right, arrow_down, arrow_left]"

definition secondary_cycle :: "string list" where
  "secondary_cycle = [arrow_nw, arrow_ne, arrow_se, arrow_sw]"

definition cycle_at :: "string list \<Rightarrow> int \<Rightarrow> string" where
  "cycle_at cycle N = cycle ! nat ((N - 1) mod 4)"

text \<open>The letter at an index, \<open>A = 0 .. Z = 25\<close>, and the affine parameters of the
  letter domain as the specification words them.\<close>

definition alphabet :: string where
  "alphabet = ''ABCDEFGHIJKLMNOPQRSTUVWXYZ''"

definition letter_a :: "int \<Rightarrow> int" where
  "letter_a test_id =
     (let a = (2 * test_id + 1) mod 26 in if even a then a + 1 else a)"

definition letter_b :: "int \<Rightarrow> int \<Rightarrow> int" where
  "letter_b test_id local = (3 * local + test_id) mod 26"

definition letter_x1 :: "int \<Rightarrow> int \<Rightarrow> int" where
  "letter_x1 test_id local = (5 * test_id + local) mod 26"

definition letter_x2 :: "int \<Rightarrow> int \<Rightarrow> int" where
  "letter_x2 test_id local = (letter_x1 test_id local + 13) mod 26"

text \<open>The three bases of the base-conversion domain, with the re-roll of \<open>base_y\<close>.\<close>

definition spec_base_x :: "int \<Rightarrow> int \<Rightarrow> int" where
  "spec_base_x test_id local = 5 + ((test_id + local) mod 12)"

definition spec_base_y :: "int \<Rightarrow> int \<Rightarrow> int" where
  "spec_base_y test_id local =
     (let first = 5 + ((2 * test_id + local) mod 12);
          rerolled = 5 + ((3 * test_id + local) mod 12)
      in if first \<noteq> spec_base_x test_id local then first
         else if rerolled \<noteq> spec_base_x test_id local then rerolled
         else 16)"

definition spec_base_z :: "int \<Rightarrow> int \<Rightarrow> int" where
  "spec_base_z test_id local = 5 + ((test_id + 2 * local) mod 12)"

definition hidden_integer :: "int \<Rightarrow> int \<Rightarrow> int" where
  "hidden_integer test_id local = 200 + 17 * test_id + 11 * local"

text \<open>The domain tag a generated question carries, and what every generated question
  records about its key: the key itself, the tag, the keys of \<open>meta\<close> and the local index
  in it.\<close>

fun domain_tag :: "domain \<Rightarrow> string" where
  "domain_tag NumericSequence = ''numeric_sequence_hard''"
| "domain_tag NestedLogic = ''nested_logic_hard''"
| "domain_tag ArrowCycle = ''dual_arrow_cycle_hard''"
| "domain_tag LetterAnalogy = ''letter_analogy_hard''"
| "domain_tag WordArithmetic = ''word_arithmetic_hard''"
| "domain_tag RavenMatrix = ''raven_matrix_hard''"
| "domain_tag BaseConversion = ''base_conversion_hard''"
| "domain_tag ShapeSequence = ''shape_sequence_coupled_modulo_hard''"
| "domain_tag SelfReferential = ''self_referential_hard''"

text \<open>The local index re-bases \<open>question_idx\<close> to start at 1 within its band.\<close>

fun band_offset :: "domain \<Rightarrow> int" where
  "band_offset NumericSequence = 0"
| "band_offset NestedLogic = 15"
| "band_offset ArrowCycle = 25"
| "band_offset LetterAnalogy = 35"
| "band_offset WordArithmetic = 45"
| "band_offset RavenMatrix = 55"
| "band_offset BaseConversion = 70"
| "band_offset ShapeSequence = 80"
| "band_offset SelfReferential = 90"

text \<open>The keys of the \<open>meta\<close> dictionary each generator builds, in insertion order.\<close>

fun meta_keys :: "domain \<Rightarrow> string list" where
  "meta_keys NumericSequence = [''local_index'', ''length'', ''pattern_hint'']"
| "meta_keys NestedLogic = [''local_index'', ''statement_form'', ''prime_like_rule'']"
| "meta_keys ArrowCycle =
     [''local_index'', ''primary_cycle'', ''secondary_cycle'', ''N1_expression'',
      ''N2_expression'']"
| "meta_keys LetterAnalogy =
     [''local_index'', ''a_mod_26'', ''b_mod_26'', ''example_input_index'',
      ''query_input_index'']"
| "meta_keys WordArithmetic =
     [''local_index'', ''base_items'', ''daily_gain'', ''days'', ''bonus_factor'', ''loss'',
      ''groups'']"
| "meta_keys RavenMatrix = [''local_index'', ''rule_type'', ''missing_cell'']"
| "meta_keys BaseConversion =
     [''local_index'', ''base_x'', ''base_y'', ''base_z'', ''repr_x'', ''repr_y'', ''repr_z'']"
| "meta_keys ShapeSequence =
     [''local_index'', ''modulus_A'', ''modulus_B'', ''shapeA'', ''shapeB'', ''first_four_A'',
      ''first_four_B'', ''rule_hint'']"
| "meta_keys SelfReferential = [''local_index'', ''digit'', ''mode'', ''range'']"

definition question_for :: "question \<Rightarrow> int \<Rightarrow> int \<Rightarrow> domain \<Rightarrow> int \<Rightarrow> bool" where
  "question_for Q test_id question_idx d local =
     (q_test_id Q = test_id \<and> q_question_idx Q = question_idx \<and> q_domain Q = domain_tag d
      \<and> map fst (q_meta Q) = meta_keys d
      \<and> map_of (q_meta Q) ''local_index'' = Some (VInt local))"

text \<open>Recomputing the solver's answer from what a generated question records. The
  readers below look a key up in \<open>meta\<close> and give \<open>None\<close> when it is missing or holds a
  value of another shape.\<close>

definition meta_int :: "(string \<times> pyval) list \<Rightarrow> string \<Rightarrow> int option" where
  "meta_int m k = (case map_of m k of Some (VInt i) \<Rightarrow> Some i | _ \<Rightarrow> None)"

definition meta_str :: "(string \<times> pyval) list \<Rightarrow> string \<Rightarrow> string option" where
  "meta_str m k = (case map_of m k of Some (VStr s) \<Rightarrow> Some s | _ \<Rightarrow> None)"

definition meta_int_at :: "(string \<times> pyval) list \<Rightarrow> string \<Rightarrow> nat \<Rightarrow> int option" where
  "meta_int_at m k n =
     (case map_of m k of
        Some (VList vs) \<Rightarrow>
          (if n < length vs then (case vs ! n of VInt i \<Rightarrow> Some i | _ \<Rightarrow> None) else None)
      | _ \<Rightarrow> None)"

definition meta_dict_int :: "(string \<times> pyval) list \<Rightarrow> string \<Rightarrow> string \<Rightarrow> int option" where
  "meta_dict_int m k k' = (case map_of m k of Some (VDict d) \<Rightarrow> meta_int d k' | _ \<Rightarrow> None)"


















section \<open>Auxiliary lemmas\<close>

subsection \<open>The error monad and the Python primitives\<close>

lemma bindE_Inr [simp]: "bindE (Inr x) f = f x"
  by (simp add: bindE_def)

lemma bindE_Inl [simp]: "bindE (Inl e) f = Inl e"
  by (simp add: bindE_def)

lemma bindP_Some_Inr [simp]: "bindP (Some (Inr x)) f = f x"
  by (simp add: bindP_def)

lemma bindE_returnsI:
  assumes "\<exists>x. m = Inr x \<and> P x" and "\<And>x. P x \<Longrightarrow> \<exists>y. f x = Inr y"
  shows "\<exists>y. bindE m f = Inr y"
  using assms by auto

lemma bindE_postI:
  assumes "\<exists>x. m = Inr x \<and> P x" and "\<And>x. P x \<Longrightarrow> \<exists>y. f x = Inr y \<and> R y"
  shows "\<exists>y. bindE m f = Inr y \<and> R y"
  using assms by auto

lemma bindE_collect_step:
  assumes "\<exists>y. m = Inr y \<and> P y"
  shows "\<exists>y. bindE m (\<lambda>r. Inr (acc @ [r])) = Inr (acc @ [y]) \<and> P y"
  using assms by auto

lemma py_index_in_range:
  "0 \<le> i \<Longrightarrow> i < int (length xs) \<Longrightarrow> py_index xs i = Inr (xs ! nat i)"
  by (simp add: py_index_def)

lemma py_setitem_in_range:
  "0 \<le> i \<Longrightarrow> i < int (length xs) \<Longrightarrow> py_setitem xs i v = Inr (xs[nat i := v])"
  by (simp add: py_setitem_def)

lemma py_mod_nonzero: "y \<noteq> 0 \<Longrightarrow> py_mod x y = Inr (x mod y)"
  by (simp add: py_mod_def)

lemma py_floordiv_nonzero: "y \<noteq> 0 \<Longrightarrow> py_floordiv x y = Inr (x div y)"
  by (simp add: py_floordiv_def)

lemma upto_0_2: "[0..2] = [0, 1, (2::int)]"
  by (simp add: upto.simps)

lemma upto_0_3: "[0..3] = [0, 1, 2, (3::int)]"
  by (simp add: upto.simps)

lemma upto_1_4: "[1..4] = [1, 2, 3, (4::int)]"
  by (simp add: upto.simps)

lemma upto_0_6: "[0..6] = [0, 1, 2, 3, 4, 5, (6::int)]"
  by (simp add: upto.simps)

lemma mod3_cases: "(q::int) mod 3 = 0 \<or> q mod 3 = 1 \<or> q mod 3 = 2"
  by presburger

text \<open>A loop that appends one item per round returns a list as long as its range.\<close>

lemma foldE_collect_from:
  assumes "\<And>acc x. x \<in> set xs \<Longrightarrow> \<exists>y. f acc x = Inr (acc @ [y]) \<and> P y"
  shows "\<exists>ys. foldE f acc xs = Inr (acc @ ys) \<and> length ys = length xs \<and> (\<forall>y\<in>set ys. P y)"
  using assms
proof (induction xs arbitrary: acc)
  case Nil
  then show ?case by simp
next
  case (Cons x xs)
  from Cons.prems[of x acc] obtain y where y: "f acc x = Inr (acc @ [y])" "P y" by auto
  from Cons.IH[of "acc @ [y]"] Cons.prems obtain ys where
    "foldE f (acc @ [y]) xs = Inr ((acc @ [y]) @ ys)" "length ys = length xs" "\<forall>y\<in>set ys. P y"
    by auto
  with y show ?case by (intro exI[of _ "y # ys"]) simp
qed

lemma foldE_collect:
  assumes "length xs = n"
    and "\<And>acc x. x \<in> set xs \<Longrightarrow> \<exists>y. f acc x = Inr (acc @ [y]) \<and> P y"
  shows "\<exists>ys. foldE f [] xs = Inr ys \<and> (length ys = n \<and> (\<forall>y\<in>set ys. P y))"
  using foldE_collect_from[where xs=xs and f=f and acc="[]" and P=P] assms by auto

lemma foldE_pair_collect_from:
  assumes "\<And>a b x. x \<in> set xs \<Longrightarrow> \<exists>a' b'. f (a, b) x = Inr (a @ [a'], b @ [b'])"
  shows "\<exists>ys zs. foldE f (a, b) xs = Inr (a @ ys, b @ zs)
           \<and> length ys = length xs \<and> length zs = length xs"
  using assms
proof (induction xs arbitrary: a b)
  case Nil
  then show ?case by simp
next
  case (Cons x xs)
  from Cons.prems[of x a b] obtain a' b' where
    step: "f (a, b) x = Inr (a @ [a'], b @ [b'])" by auto
  from Cons.IH[of "a @ [a']" "b @ [b']"] Cons.prems obtain ys zs where
    "foldE f (a @ [a'], b @ [b']) xs = Inr ((a @ [a']) @ ys, (b @ [b']) @ zs)"
    "length ys = length xs" "length zs = length xs"
    by auto
  with step show ?case
    by (intro exI[of _ "a' # ys"] exI[of _ "b' # zs"]) simp
qed

lemma foldE_pair_collect:
  assumes "length xs = n"
    and "\<And>a b x. x \<in> set xs \<Longrightarrow> \<exists>a' b'. f (a, b) x = Inr (a @ [a'], b @ [b'])"
  shows "\<exists>s. foldE f ([], []) xs = Inr s \<and> (case s of (a, b) \<Rightarrow> length a = n \<and> length b = n)"
  using foldE_pair_collect_from[where xs=xs and f=f and a="[]" and b="[]"] assms by auto

subsection \<open>The base renderer returns\<close>

lemma to_base_loop_returns:
  assumes "2 \<le> base" "base \<le> 36"
  shows "\<exists>s. to_base_loop x base out = Some (Inr s)"
proof (induction "nat x" arbitrary: x out rule: less_induct)
  case less
  show ?case
  proof (cases "x > 0")
    case False
    then show ?thesis by (subst to_base_loop.simps) simp
  next
    case True
    have "0 \<le> x mod base" "x mod base < base" using assms by simp_all
    then have d: "0 \<le> x mod base" "x mod base < 36" using assms by linarith+
    have len: "int (length to_base_digits) = 36" by (simp add: to_base_digits_def)
    have "x div base < x" using True assms by (simp add: int_div_less_self)
    then have smaller: "nat (x div base) < nat x" using True by simp
    from less[OF smaller] obtain s where
      "to_base_loop (x div base) base ((to_base_digits ! nat (x mod base)) # out) = Some (Inr s)"
      by blast
    then show ?thesis using True assms d len
      by (subst to_base_loop.simps)
         (simp add: py_mod_nonzero py_floordiv_nonzero py_index_in_range)
  qed
qed

lemma to_base_returns:
  assumes "2 \<le> base" "base \<le> 36"
  shows "\<exists>s. to_base n base = Some (Inr s)"
  using to_base_loop_returns[OF assms] by (simp add: to_base_def)

subsection \<open>Every solver handler returns\<close>

lemma numeric_sequence_loop:
  "foldl (\<lambda>seq n.
            seq @ [if (n + 1) mod 2 = 0
                   then (3 * t + 5 * q) mod 97 + 10 + ((2 * t + q) mod 11 + 1) * (n + 1)
                        + ((t + 3 * q) mod 7 + 1) * ((n + 1) * (n + 1)) + t * q mod 9
                   else (3 * t + 5 * q) mod 97 + 10 + ((2 * t + q) mod 11 + 1) * (n + 1)
                        + ((t + 3 * q) mod 7 + 1) * ((n + 1) * (n + 1)) + (t + q) mod 9])
         [] [0..7 - 1]
   = numeric_sequence t q"
  by (simp add: upto_0_6 numeric_sequence_def seq_term_def power2_eq_square)

lemma hidden_position_range: "hidden_position q \<in> {2, 3, 4}"
  using mod3_cases[of q] by (auto simp add: hidden_position_def)

lemma length_numeric_sequence: "length (numeric_sequence t q) = 7"
  by (simp add: numeric_sequence_def)

lemma solve_numeric_value:
  "solve_numeric t q = Inr (AInt (numeric_sequence t q ! hidden_position q))"
proof -
  have "0 \<le> 2 + q mod 3" "2 + q mod 3 < int (length (numeric_sequence t q))"
    unfolding length_numeric_sequence by presburger+
  then show ?thesis
    unfolding solve_numeric_def Let_def numeric_sequence_loop hidden_position_def
    by (simp only: py_index_in_range bindE_Inr)
qed

lemma shown_loop:
  assumes "p \<in> {2, 3, 4}"
  shows "foldl (\<lambda>shown (i, x). if int i = int p then shown @ [''?''] else shown @ [str x])
           [] (enumerate 0 [x1, x2, x3, x4, x5, x6, x7])
         = (map str [x1, x2, x3, x4, x5, x6, x7])[p := ''?'']"
  using assms by (auto simp add: eval_nat_numeral)

lemma solve_arrows_value:
  "solve_arrows t q =
     Inr (AStr (''('' @ cycle_at primary_cycle (7 * t + 11 * (q - 25)) @ '', ''
                @ cycle_at secondary_cycle (5 * t - 3 * (q - 25)) @ '')''))"
  by (simp add: solve_arrows_def Let_def py_index_in_range cycle_at_def primary_cycle_def
        secondary_cycle_def)

lemma solve_word_returns: "\<exists>a. solve_word t q = Inr a"
proof -
  have "2 + t mod 4 + 1 \<noteq> 0" "2 + t mod 4 \<noteq> 0" by presburger+
  then show ?thesis
    by (simp add: solve_word_def Let_def py_mod_nonzero py_floordiv_nonzero)
qed

lemma cell_symbol_returns:
  "length shapes = 4 \<Longrightarrow> length orientations = 4 \<Longrightarrow> length fills = 3 \<Longrightarrow>
   \<exists>s. cell_symbol shapes orientations fills b bo bf r c = Inr s"
  by (simp add: cell_symbol_def py_mod_nonzero py_index_in_range Let_def)

lemma solve_raven_returns: "\<exists>a. solve_raven t q = Inr a"
proof -
  have "\<And>b bo bf r c. \<exists>s. cell_symbol [black_triangle, black_square, black_circle, black_star]
          [''0'' @ degree_sign, ''90'' @ degree_sign, ''180'' @ degree_sign, ''270'' @ degree_sign]
          [white_circle, half_circle, black_circle] b bo bf r c = Inr s"
    by (rule cell_symbol_returns) simp_all
  then show ?thesis
    unfolding solve_raven_def Let_def
    by (simp add: py_mod_nonzero split: prod.splits) (metis bindE_Inr)
qed

lemma solve_shape_sequence_returns: "\<exists>a. solve_shape_sequence t q = Inr a"
proof -
  have "5 + (t + (q - 80)) mod 5 \<noteq> 0" "6 + (2 * t + (q - 80)) mod 5 \<noteq> 0" by presburger+
  then show ?thesis
    by (simp add: solve_shape_sequence_def Let_def py_mod_nonzero)
qed

subsection \<open>Every generator handler returns a question for its key\<close>

lemma generate_numeric_question_value:
  "\<exists>hdr. generate_numeric_question t q =
     Inr \<lparr> q_test_id = t, q_question_idx = q, q_domain = ''numeric_sequence_hard'',
           q_prompt = hdr @ ''Sequence: ''
                      @ join '', '' ((map str (numeric_sequence t q))[hidden_position q := ''?'']),
           q_meta = [(''local_index'', VInt q), (''length'', VInt 7),
                     (''pattern_hint'',
                      VStr ''mix of linear, quadratic, and parity-based offsets'')] \<rparr>"
proof -
  have pos: "2 + q mod 3 = int (hidden_position q)"
    unfolding hidden_position_def by simp
  obtain x1 x2 x3 x4 x5 x6 x7 where seq: "numeric_sequence t q = [x1, x2, x3, x4, x5, x6, x7]"
    by (simp add: numeric_sequence_def)
  have shown: "foldl (\<lambda>shown (i, x). if int i = int (hidden_position q) then shown @ [''?'']
                       else shown @ [str x]) [] (enumerate 0 (numeric_sequence t q))
               = (map str (numeric_sequence t q))[hidden_position q := ''?'']"
    unfolding seq by (rule shown_loop[OF hidden_position_range])
  show ?thesis
    unfolding generate_numeric_question_def Let_def numeric_sequence_loop pos shown
    by (simp only: append_assoc[symmetric]) blast
qed

lemma generate_numeric_question_returns:
  "\<exists>Q. generate_numeric_question t q = Inr Q \<and> question_for Q t q NumericSequence q"
  using generate_numeric_question_value[of t q] by (auto simp add: question_for_def)

lemma generate_logic_question_returns:
  "\<exists>Q. generate_logic_question t q = Inr Q \<and> question_for Q t q NestedLogic (q - 15)"
  by (simp add: generate_logic_question_def Let_def question_for_def)

lemma generate_spatial_like_question_returns:
  "\<exists>Q. generate_spatial_like_question t q = Inr Q \<and> question_for Q t q ArrowCycle (q - 25)"
  by (simp add: generate_spatial_like_question_def Let_def question_for_def)

lemma generate_letter_question_value:
  assumes "generate_letter_locals t q = (a, b, x1, x2)"
  shows "\<exists>p. generate_letter_question t q =
       Inr \<lparr> q_test_id = t, q_question_idx = q, q_domain = ''letter_analogy_hard'',
             q_prompt = p,
             q_meta = [(''local_index'', VInt (q - 35)), (''a_mod_26'', VInt a),
                       (''b_mod_26'', VInt b), (''example_input_index'', VInt x1),
                       (''query_input_index'', VInt x2)] \<rparr>"
  using assms by (simp add: generate_letter_question_def Let_def)

lemma generate_letter_question_returns:
  "\<exists>Q. generate_letter_question t q = Inr Q \<and> question_for Q t q LetterAnalogy (q - 35)"
proof -
  obtain a b x1 x2 where "generate_letter_locals t q = (a, b, x1, x2)"
    by (cases "generate_letter_locals t q") auto
  from generate_letter_question_value[OF this] show ?thesis
    by (auto simp add: question_for_def)
qed

lemma generate_word_question_value:
  "\<exists>p. generate_word_question t q =
       Inr \<lparr> q_test_id = t, q_question_idx = q, q_domain = ''word_arithmetic_hard'',
             q_prompt = p,
             q_meta = [(''local_index'', VInt (q - 45)),
                       (''base_items'', VInt (4 + (t mod 9))),
                       (''daily_gain'', VInt (1 + ((q - 45) mod 5))),
                       (''days'', VInt (3 + ((t + (q - 45)) mod 4))),
                       (''bonus_factor'', VInt (1 + ((t * (q - 45)) mod 3))),
                       (''loss'', VInt ((4 + (t mod 9) + (1 + ((q - 45) mod 5))) mod (2 + (t mod 4) + 1))),
                       (''groups'', VInt (2 + (t mod 4)))] \<rparr>"
proof -
  have "2 + t mod 4 + 1 \<noteq> 0" by presburger
  then show ?thesis
    by (simp add: generate_word_question_def Let_def py_mod_nonzero)
qed

lemma generate_word_question_returns:
  "\<exists>Q. generate_word_question t q = Inr Q \<and> question_for Q t q WordArithmetic (q - 45)"
  using generate_word_question_value[of t q] by (auto simp add: question_for_def)


lemma generate_self_referential_question_value:
  "\<exists>p. generate_self_referential_question t q =
       Inr \<lparr> q_test_id = t, q_question_idx = q, q_domain = ''self_referential_hard'',
             q_prompt = p,
             q_meta = [(''local_index'', VInt (q - 90)),
                       (''digit'', VInt (fst (basic_self_ref_digit_mode t q))),
                       (''mode'', VInt (snd (basic_self_ref_digit_mode t q))),
                       (''range'', VTuple [VInt 1, VInt 100])] \<rparr>"
  by (simp add: generate_self_referential_question_def Let_def basic_self_ref_digit_mode_def
        QUESTIONS_PER_TEST_def)

lemma generate_self_referential_question_returns:
  "\<exists>Q. generate_self_referential_question t q = Inr Q
       \<and> question_for Q t q SelfReferential (q - 90)"
  using generate_self_referential_question_value[of t q] by (auto simp add: question_for_def)

lemma raven_missing_cases:
  "(if (m::int) = 0 then (2, 2) else if m = 1 then (1, 1) else (0, 2))
     \<in> {(2, 2), (1, 1), (0::int, 2::int)}"
  by simp

lemma raven_grid_update_returns:
  assumes "length grid = 3" "\<forall>row\<in>set grid. length row = 3"
    and "(mr, mc) \<in> {(2, 2), (1, 1), (0::int, 2::int)}"
    and "\<And>g. length g = 3 \<Longrightarrow> \<exists>y. k g = Inr y \<and> R y"
  shows "\<exists>y. bindE (py_index grid mr) (\<lambda>row.
               bindE (py_setitem row mc v) (\<lambda>row.
               bindE (py_setitem grid mr row) k)) = Inr y \<and> R y"
proof -
  have mr: "0 \<le> mr" "mr < 3" "0 \<le> mc" "mc < 3" using assms(3) by auto
  then have "nat mr < length grid" using assms(1) by simp
  then have "length (grid ! nat mr) = 3" using assms(2) by simp
  then show ?thesis using mr assms(1) assms(4)
    by (simp add: py_index_in_range py_setitem_in_range)
qed

lemma generate_raven_matrix_question_returns:
  "\<exists>Q. generate_raven_matrix_question t q = Inr Q \<and> question_for Q t q RavenMatrix (q - 55)"
  unfolding generate_raven_matrix_question_def Let_def
  apply (rule bindE_postI[where P="\<lambda>_. True"])
  subgoal by (simp add: py_mod_nonzero)
  apply (rule bindE_postI[where P="\<lambda>grid. length grid = 3 \<and> (\<forall>row\<in>set grid. length row = 3)"])
  subgoal
    apply (rule foldE_collect)
    subgoal by (simp add: upto_0_2)
    apply (rule bindE_collect_step)
    apply (rule foldE_collect[where P="\<lambda>_. True", simplified])
    subgoal by (simp add: upto_0_2)
    apply (rule bindE_collect_step[where P="\<lambda>_. True", simplified])
    apply (rule cell_symbol_returns)
    by simp_all
  subgoal for base_idx grid
    apply (cases "if (t + (q - 55)) mod 3 = 0 then (2, 2) else if (t + (q - 55)) mod 3 = 1 then (1, 1) else (0::int, 2::int)")
    subgoal for mr mc
      using raven_missing_cases[of "(t + (q - 55)) mod 3"]
      apply (simp only: prod.case)
      apply (rule raven_grid_update_returns)
      apply simp
      apply simp
      apply simp
      apply (rule bindE_postI[where P="\<lambda>_. True"])
      subgoal for g
        apply (simp only: simp_thms)
        apply (rule foldE_collect[where P="\<lambda>_. True" and n = 3, simplified, THEN exE])
        prefer 3
          apply blast
         apply (simp add: upto_0_2)
        apply (auto simp add: upto_0_2 py_index_in_range)
        done
      apply (rule bindE_postI[where P="\<lambda>_. True"])
      apply (simp add: py_index_in_range)
      apply (simp add: question_for_def)
      done
    done
  done

lemma generate_shape_sequence_question_returns:
  "\<exists>Q. generate_shape_sequence_question t q = Inr Q
       \<and> question_for Q t q ShapeSequence (q - 80)"
proof -
  have mA: "5 + (t + (q - 80)) mod 5 \<noteq> 0" and mB: "6 + (2 * t + (q - 80)) mod 5 \<noteq> 0"
    by presburger+
  show ?thesis
    unfolding generate_shape_sequence_question_def Let_def
    apply (rule bindE_postI[where P="\<lambda>_. True"])
    subgoal using mA by (simp add: py_mod_nonzero)
    apply (rule bindE_postI[where P="\<lambda>_. True"])
    subgoal using mB by (simp add: py_mod_nonzero)
    apply (rule bindE_postI[where P="\<lambda>_. True"])
    subgoal using mA by (simp add: py_mod_nonzero)
    apply (rule bindE_postI[where P="\<lambda>_. True"])
    subgoal using mB by (simp add: py_mod_nonzero)
    apply (rule bindE_postI[where P="\<lambda>_. True"])
    subgoal by (simp add: py_index_in_range)
    apply (rule bindE_postI[where P="\<lambda>_. True"])
    subgoal by (simp add: py_index_in_range)
    apply (rule bindE_postI[where P="\<lambda>s. case s of (a, b) \<Rightarrow> length a = 4 \<and> length b = 4"])
    subgoal
      apply (rule foldE_pair_collect)
      subgoal by (simp add: upto_1_4)
      using mA mB by (simp add: py_mod_nonzero)
    subgoal for m1 m2 s1 s2 shapeA shapeB counts
      apply (cases counts)
      apply (simp only: prod.case)
      apply (rule bindE_postI[where P="\<lambda>_. True"])
      subgoal
        apply (rule foldE_collect[where P="\<lambda>_. True" and n = 4, simplified, THEN exE])
        prefer 3
          apply blast
         apply (simp add: upto_0_3)
        apply (auto simp add: upto_0_3 py_index_in_range)
        done
      apply (simp add: question_for_def)
      done
    done
qed

lemma base_bounds:
  "2 \<le> 5 + (x::int) mod 12" "5 + (x::int) mod 12 \<le> 36"
  by presburger+

lemma generate_base_conversion_question_value:
  "\<exists>p rx ry rz. generate_base_conversion_question t q =
     Some (Inr \<lparr> q_test_id = t, q_question_idx = q, q_domain = ''base_conversion_hard'',
                 q_prompt = p,
                 q_meta = [(''local_index'', VInt (q - 70)),
                           (''base_x'', VInt (spec_base_x t (q - 70))),
                           (''base_y'', VInt (spec_base_y t (q - 70))),
                           (''base_z'', VInt (spec_base_z t (q - 70))),
                           (''repr_x'', VStr rx), (''repr_y'', VStr ry),
                           (''repr_z'', VStr rz)] \<rparr>)"
proof -
  define N where "N = 200 + 17 * t + 11 * (q - 70)"
  have by_eq: "(if 5 + (2 * t + (q - 70)) mod 12 = 5 + (t + (q - 70)) mod 12
                then if 5 + (3 * t + (q - 70)) mod 12 = 5 + (t + (q - 70)) mod 12 then 16
                     else 5 + (3 * t + (q - 70)) mod 12
                else 5 + (2 * t + (q - 70)) mod 12) = spec_base_y t (q - 70)"
    by (simp add: spec_base_y_def spec_base_x_def Let_def)
  have by_bounds: "2 \<le> spec_base_y t (q - 70)" "spec_base_y t (q - 70) \<le> 36"
    using base_bounds[of "2 * t + (q - 70)"] base_bounds[of "3 * t + (q - 70)"]
    by (auto simp add: spec_base_y_def Let_def)
  obtain rx where rx: "to_base N (5 + (t + (q - 70)) mod 12) = Some (Inr rx)"
    using to_base_returns[OF base_bounds, of N] by auto
  obtain ry where ry: "to_base N (spec_base_y t (q - 70)) = Some (Inr ry)"
    using to_base_returns[OF by_bounds, of N] by auto
  obtain rz where rz: "to_base N (5 + (t + 2 * (q - 70)) mod 12) = Some (Inr rz)"
    using to_base_returns[OF base_bounds, of N] by auto
  show ?thesis
    unfolding generate_base_conversion_question_def Let_def by_eq N_def[symmetric]
    by (simp only: rx ry rz bindP_Some_Inr spec_base_x_def spec_base_z_def) blast
qed

lemma generate_base_conversion_question_returns:
  "\<exists>Q. generate_base_conversion_question t q = Some (Inr Q)
       \<and> question_for Q t q BaseConversion (q - 70)"
  using generate_base_conversion_question_value[of t q] by (auto simp add: question_for_def)

subsection \<open>The two dispatchers\<close>

lemma band_of_cases:
  "band_of q = (if 1 \<le> q \<and> q \<le> 15 then Some NumericSequence
      else if 16 \<le> q \<and> q \<le> 25 then Some NestedLogic
      else if 26 \<le> q \<and> q \<le> 35 then Some ArrowCycle
      else if 36 \<le> q \<and> q \<le> 45 then Some LetterAnalogy
      else if 46 \<le> q \<and> q \<le> 55 then Some WordArithmetic
      else if 56 \<le> q \<and> q \<le> 70 then Some RavenMatrix
      else if 71 \<le> q \<and> q \<le> 80 then Some BaseConversion
      else if 81 \<le> q \<and> q \<le> 90 then Some ShapeSequence
      else if 91 \<le> q \<and> q \<le> 100 then Some SelfReferential
      else None)"
  by (simp add: band_of_def bands_def)

lemma band_of_valid: "valid_key t q \<Longrightarrow> \<exists>d. band_of q = Some d"
  unfolding band_of_cases valid_key_def by auto

lemma generate_question_dispatch:
  "valid_key t q \<Longrightarrow> band_of q = Some d \<Longrightarrow> generate_question t q = generator_handler d t q"
  unfolding band_of_cases valid_key_def generate_question_def NUM_TESTS_def QUESTIONS_PER_TEST_def
  by (auto split: if_splits)

lemma solve_question_dispatch:
  "valid_key t q \<Longrightarrow> band_of q = Some d \<Longrightarrow> solve_question t q = solver_handler d t q"
  unfolding band_of_cases valid_key_def solve_question_def ensure_valid_indices_def
    NUM_TESTS_def QUESTIONS_PER_TEST_def
  by (auto split: if_splits)

lemma generator_handler_returns:
  "\<exists>Q. generator_handler d t q = Some (Inr Q) \<and> question_for Q t q d (q - band_offset d)"
  using generate_numeric_question_returns[of t q] generate_logic_question_returns[of t q]
    generate_spatial_like_question_returns[of t q] generate_letter_question_returns[of t q]
    generate_word_question_returns[of t q] generate_raven_matrix_question_returns[of t q]
    generate_base_conversion_question_returns[of t q]
    generate_shape_sequence_question_returns[of t q]
    generate_self_referential_question_returns[of t q]
  by (cases d) simp_all

lemma solver_handler_returns: "\<exists>a. solver_handler d t q = Inr a"
  using solve_word_returns[of t q] solve_raven_returns[of t q]
    solve_shape_sequence_returns[of t q]
  by (cases d)
     (simp_all add: solve_numeric_value solve_arrows_value solve_logic_def solve_letter_def
        solve_base_def solve_self_referential_def Let_def split: prod.splits)

lemma generate_question_valid:
  assumes "valid_key t q"
  shows "\<exists>Q. generate_question t q = Some (Inr Q)"
proof -
  from band_of_valid[OF assms] obtain d where d: "band_of q = Some d" ..
  from generator_handler_returns[of d t q] generate_question_dispatch[OF assms d]
  show ?thesis by auto
qed

lemma solve_question_valid:
  assumes "valid_key t q"
  shows "\<exists>a. solve_question t q = Inr a"
proof -
  from band_of_valid[OF assms] obtain d where d: "band_of q = Some d" ..
  from solver_handler_returns[of d t q] solve_question_dispatch[OF assms d]
  show ?thesis by auto
qed

lemma generate_question_invalid:
  "\<not> valid_key t q \<Longrightarrow> \<exists>m. generate_question t q = Some (Inl (ValueError m))"
  unfolding valid_key_def generate_question_def NUM_TESTS_def QUESTIONS_PER_TEST_def
  by auto

lemma solve_question_invalid:
  "\<not> valid_key t q \<Longrightarrow> \<exists>m. solve_question t q = Inl (ValueError m)"
  unfolding valid_key_def solve_question_def ensure_valid_indices_def NUM_TESTS_def
    QUESTIONS_PER_TEST_def
  by auto

subsection \<open>Rendered numbers and letters\<close>

lemma digit_char_not_question: "d < 10 \<Longrightarrow> digit_char d \<noteq> CHR ''?''"
proof
  assume d: "d < 10" and eq: "digit_char d = CHR ''?''"
  have "of_char (digit_char d) = (48 + d) mod 256"
    by (simp add: digit_char_def)
  moreover have "of_char (CHR ''?'') = (63 :: nat)" by simp
  ultimately show False using d eq by simp
qed

lemma str_nat_no_question: "CHR ''?'' \<notin> set (str_nat n)"
proof (induction n rule: str_nat.induct)
  case (1 n)
  show ?case
  proof (cases "n < 10")
    case True
    then show ?thesis
      using digit_char_not_question[of n] by (subst str_nat.simps) auto
  next
    case False
    have "n mod 10 < 10" by simp
    then have "digit_char (n mod 10) \<noteq> CHR ''?''" by (rule digit_char_not_question)
    with False 1 show ?thesis
      by (subst str_nat.simps) auto
  qed
qed

lemma str_not_question: "str x \<noteq> ''?''"
proof
  assume "str x = ''?''"
  then have "CHR ''?'' \<in> set (str x)" by simp
  then show False using str_nat_no_question by (auto simp add: str_def split: if_splits)
qed

lemma enc_table: "map (\<lambda>n. enc (int n)) [0..<26] = map (\<lambda>c. [c]) alphabet"
  by (simp add: enc_def alphabet_def upt_rec char_of_eq_iff)

lemma enc_alphabet:
  assumes "0 \<le> j" "j < 26"
  shows "enc j = [alphabet ! nat j]"
proof -
  have n: "nat j < 26" using assms by simp
  have "map (\<lambda>n. enc (int n)) [0..<26] ! nat j = map (\<lambda>c. [c]) alphabet ! nat j"
    by (simp only: enc_table)
  moreover have "length alphabet = 26" by (simp add: alphabet_def)
  ultimately have "enc (int (nat j)) = [alphabet ! nat j]"
    using n by simp
  then show ?thesis using assms by simp
qed

subsection \<open>The logic and letter solvers in the specification's terms\<close>

lemma is_prime_like_eq: "is_prime_like n = no_small_divisor n"
  unfolding is_prime_like_def is_prime_like_loop.simps no_small_divisor_def mod_eq_0_iff_dvd
  by simp

lemma logic_template_code:
  "logic_template i p q r =
     (if i = 0 then (p \<and> q) \<or> (\<not> r)
      else if i = 1 then (\<not> (p \<and> r)) \<or> (q \<noteq> r)
      else if i = 2 then (p \<noteq> q) \<and> (q \<or> r)
      else (\<not> (p \<or> q)) \<or> ((\<not> p) \<and> r))"
  unfolding logic_template_def imp_conv_disj by (rule refl)

lemma solve_logic_value:
  "solve_logic t q =
     Inr (AStr (if logic_template ((t + (q - 15)) mod 4) (even t) (3 dvd (q - 15))
                     (no_small_divisor (t + (q - 15)))
                then ''TRUE'' else ''FALSE''))"
  unfolding solve_logic_def Let_def logic_template_code is_prime_like_eq
  by (simp only: mod_eq_0_iff_dvd)

lemma letter_a_guard: "((2 * (t::int) + 1) mod 26) mod 2 \<noteq> 0"
  by (simp add: mod_mod_cancel)

lemma solve_letter_locals_eq:
  "solve_letter_locals t q =
     (letter_a t, letter_b t (q - 35), letter_x1 t (q - 35), letter_x2 t (q - 35))"
proof -
  have "odd ((2 * t + 1) mod 26)"
    using letter_a_guard[of t] by presburger
  then show ?thesis
    using letter_a_guard[of t]
    by (simp add: solve_letter_locals_def letter_a_def letter_b_def letter_x1_def letter_x2_def
          Let_def)
qed

lemma generate_letter_locals_eq:
  "generate_letter_locals t q = solve_letter_locals t q"
  by (simp add: generate_letter_locals_def solve_letter_locals_def)

lemma solve_letter_value:
  "solve_letter t q =
     Inr (AStr [alphabet ! nat ((letter_a t * letter_x2 t (q - 35) + letter_b t (q - 35)) mod 26)])"
proof -
  have "enc ((letter_a t * letter_x2 t (q - 35) + letter_b t (q - 35)) mod 26)
        = [alphabet ! nat ((letter_a t * letter_x2 t (q - 35) + letter_b t (q - 35)) mod 26)]"
    by (rule enc_alphabet) simp_all
  then show ?thesis
    by (simp add: solve_letter_def solve_letter_locals_eq)
qed

subsection \<open>The bases of the base-conversion generator\<close>

lemma base_collision:
  "(2 * t + l) mod 12 = (t + l) mod 12 \<Longrightarrow> 1 \<le> l \<Longrightarrow> l \<le> 10 \<Longrightarrow> (t + l) mod 12 \<noteq> (11::int)"
  by presburger

lemma spec_bases_distinct:
  assumes "1 \<le> l" "l \<le> 10"
  shows "spec_base_x t l \<noteq> spec_base_y t l"
  using base_collision[OF _ assms, of t]
  by (auto simp add: spec_base_x_def spec_base_y_def Let_def)

lemma spec_bases_range:
  "5 \<le> spec_base_x t l \<and> spec_base_x t l \<le> 16
   \<and> 5 \<le> spec_base_y t l \<and> spec_base_y t l \<le> 16
   \<and> 5 \<le> spec_base_z t l \<and> spec_base_z t l \<le> 16"
proof -
  have "\<And>x::int. 0 \<le> x mod 12 \<and> x mod 12 \<le> 11" by presburger
  then show ?thesis
    by (simp add: spec_base_x_def spec_base_y_def spec_base_z_def Let_def)
qed

subsection \<open>What the meta of a generated question records\<close>






subsection \<open>Reading numerals back\<close>












subsection \<open>The answer recomputed from meta\<close>

lemma meta_int_Cons [simp]:
  "meta_int ((k', v) # m) k = (if k = k' then (case v of VInt i \<Rightarrow> Some i | _ \<Rightarrow> None)
                               else meta_int m k)"
  by (simp add: meta_int_def)

lemma meta_int_Nil [simp]: "meta_int [] k = None"
  by (simp add: meta_int_def)

lemma meta_str_Cons [simp]:
  "meta_str ((k', v) # m) k = (if k = k' then (case v of VStr s \<Rightarrow> Some s | _ \<Rightarrow> None)
                               else meta_str m k)"
  by (simp add: meta_str_def)









lemma meta_dict_int_Cons [simp]:
  "meta_dict_int ((k', v) # m) k j
     = (if k = k' then (case v of VDict d \<Rightarrow> meta_int d j | _ \<Rightarrow> None)
        else meta_dict_int m k j)"
  by (simp add: meta_dict_int_def)

lemma meta_int_at_Cons [simp]:
  "meta_int_at ((k', v) # m) k n
     = (if k = k'
        then (case v of
                VList vs \<Rightarrow> (if n < length vs
                              then (case vs ! n of VInt i \<Rightarrow> Some i | _ \<Rightarrow> None) else None)
              | _ \<Rightarrow> None)
        else meta_int_at m k n)"
  by (simp add: meta_int_at_def)

subsection \<open>Raven matrix\<close>





subsection \<open>Base conversion\<close>



subsection \<open>Shape sequence\<close>











subsection \<open>Where meta alone is not enough\<close>




subsection \<open>The answer recomputed, by domain\<close>



section \<open>The claims\<close>

text \<open>
  C1. For every pair of integers \<open>(test_id, question_idx)\<close>, \<open>generate_question\<close> and
  \<open>solve_question\<close> raise the input-validation error (Python's \<open>ValueError\<close>) if and
  only if \<open>test_id\<close> is outside \<open>[1, 1000]\<close> or \<open>question_idx\<close> is outside
  \<open>[1, 100]\<close>, and otherwise both return a value. The instances the claim names
  (0, 1001, 0, 101 raise; the four corner keys succeed) are the theorem after it.
\<close>

theorem C1_range_validity:
  "((\<exists>m. generate_question t q = Some (Inl (ValueError m))) \<longleftrightarrow> \<not> valid_key t q)
   \<and> ((\<exists>m. solve_question t q = Inl (ValueError m)) \<longleftrightarrow> \<not> valid_key t q)
   \<and> ((\<exists>Q. generate_question t q = Some (Inr Q)) \<longleftrightarrow> valid_key t q)
   \<and> ((\<exists>a. solve_question t q = Inr a) \<longleftrightarrow> valid_key t q)"
proof -
  have g1: "valid_key t q \<Longrightarrow> \<exists>Q. generate_question t q = Some (Inr Q)"
    by (rule generate_question_valid)
  have g2: "\<not> valid_key t q \<Longrightarrow> \<exists>m. generate_question t q = Some (Inl (ValueError m))"
    by (rule generate_question_invalid)
  have s1: "valid_key t q \<Longrightarrow> \<exists>a. solve_question t q = Inr a"
    by (rule solve_question_valid)
  have s2: "\<not> valid_key t q \<Longrightarrow> \<exists>m. solve_question t q = Inl (ValueError m)"
    by (rule solve_question_invalid)
  show ?thesis
    using g1 g2 s1 s2 by (cases "valid_key t q") auto
qed

theorem C1_range_validity_witness:
  "(\<exists>m. generate_question 0 1 = Some (Inl (ValueError m)))
   \<and> (\<exists>m. solve_question 0 1 = Inl (ValueError m))
   \<and> (\<exists>m. generate_question 1001 1 = Some (Inl (ValueError m)))
   \<and> (\<exists>m. solve_question 1001 1 = Inl (ValueError m))
   \<and> (\<exists>m. generate_question 1 0 = Some (Inl (ValueError m)))
   \<and> (\<exists>m. solve_question 1 0 = Inl (ValueError m))
   \<and> (\<exists>m. generate_question 1 101 = Some (Inl (ValueError m)))
   \<and> (\<exists>m. solve_question 1 101 = Inl (ValueError m))
   \<and> (\<exists>Q. generate_question 1 1 = Some (Inr Q)) \<and> (\<exists>a. solve_question 1 1 = Inr a)
   \<and> (\<exists>Q. generate_question 1 100 = Some (Inr Q)) \<and> (\<exists>a. solve_question 1 100 = Inr a)
   \<and> (\<exists>Q. generate_question 1000 1 = Some (Inr Q)) \<and> (\<exists>a. solve_question 1000 1 = Inr a)
   \<and> (\<exists>Q. generate_question 1000 100 = Some (Inr Q))
   \<and> (\<exists>a. solve_question 1000 100 = Inr a)"
  using C1_range_validity[of 0 1] C1_range_validity[of 1001 1] C1_range_validity[of 1 0]
    C1_range_validity[of 1 101] C1_range_validity[of 1 1] C1_range_validity[of 1 100]
    C1_range_validity[of 1000 1] C1_range_validity[of 1000 100]
  by (simp add: valid_key_def)

text \<open>
  C2. For every valid key the question index lies in exactly one band of the partition
  1-15, 16-25, 26-35, 36-45, 46-55, 56-70, 71-80, 81-90, 91-100, and the generator's
  dispatcher and the solver's dispatcher both run the handler of that band's domain; the
  question returned carries that domain's tag.
\<close>

theorem C2_dispatch_same_domain:
  assumes "valid_key t q"
  shows "\<exists>d. band_of q = Some d
           \<and> generate_question t q = generator_handler d t q
           \<and> solve_question t q = solver_handler d t q
           \<and> (\<exists>Q. generate_question t q = Some (Inr Q) \<and> q_domain Q = domain_tag d)"
proof -
  from band_of_valid[OF assms] obtain d where d: "band_of q = Some d" ..
  have g: "generate_question t q = generator_handler d t q"
    by (rule generate_question_dispatch[OF assms d])
  have s: "solve_question t q = solver_handler d t q"
    by (rule solve_question_dispatch[OF assms d])
  from generator_handler_returns[of d t q] g
  have "\<exists>Q. generate_question t q = Some (Inr Q) \<and> q_domain Q = domain_tag d"
    by (auto simp add: question_for_def)
  with d g s show ?thesis by blast
qed

theorem C2_dispatch_same_domain_witness:
  "valid_key 7 56 \<and> band_of 56 = Some RavenMatrix
   \<and> generate_question 7 56 = Some (generate_raven_matrix_question 7 56)
   \<and> solve_question 7 56 = solve_raven 7 56"
  using C2_dispatch_same_domain[of 7 56]
  by (simp add: valid_key_def band_of_cases)




text \<open>
  C4. For every valid key with \<open>question_idx\<close> in \<open>[1, 15]\<close>, \<open>solve_question\<close> returns
  the term at 0-based position \<open>2 + (local mod 3)\<close> of the 7-term sequence
  \<open>a_k = base + alpha k + beta k^2 + parity_offset(k)\<close>, \<open>k = 1..7\<close>; that position is
  2, 3 or 4, so never the first or the last; and the generator's prompt ends with the
  comma-joined sequence in which exactly that position reads \<open>?\<close>.
\<close>

theorem C4_numeric_hidden_term:
  assumes "valid_key t q" and "q \<le> 15"
  shows "solve_question t q = Inr (AInt (numeric_sequence t q ! hidden_position q))
     \<and> numeric_sequence t q ! hidden_position q = seq_term t q (int (hidden_position q) + 1)
     \<and> int (hidden_position q) = 2 + q mod 3
     \<and> hidden_position q \<in> {2, 3, 4}
     \<and> length (numeric_sequence t q) = 7
     \<and> 0 < hidden_position q \<and> hidden_position q < length (numeric_sequence t q) - 1
     \<and> (\<exists>Q hdr. generate_question t q = Some (Inr Q)
           \<and> q_prompt Q = hdr @ ''Sequence: ''
                @ join '', '' ((map str (numeric_sequence t q))[hidden_position q := ''?'']))
     \<and> (\<forall>i<7. ((map str (numeric_sequence t q))[hidden_position q := ''?''] ! i = ''?'')
                 = (i = hidden_position q))"
proof -
  have band: "band_of q = Some NumericSequence"
    using assms by (simp add: band_of_cases valid_key_def)
  have s: "solve_question t q = Inr (AInt (numeric_sequence t q ! hidden_position q))"
    using solve_question_dispatch[OF assms(1) band] by (simp add: solve_numeric_value)
  have pos: "hidden_position q \<in> {2, 3, 4}" by (rule hidden_position_range)
  have nth_term: "numeric_sequence t q ! hidden_position q
              = seq_term t q (int (hidden_position q) + 1)"
    using pos by (auto simp add: numeric_sequence_def)
  have ipos: "int (hidden_position q) = 2 + q mod 3"
    by (simp add: hidden_position_def)
  have len: "length (numeric_sequence t q) = 7" by (rule length_numeric_sequence)
  have g: "\<exists>Q hdr. generate_question t q = Some (Inr Q)
           \<and> q_prompt Q = hdr @ ''Sequence: ''
                @ join '', '' ((map str (numeric_sequence t q))[hidden_position q := ''?''])"
    using generate_question_dispatch[OF assms(1) band] generate_numeric_question_value[of t q]
    by auto
  have shown: "\<forall>i<7. ((map str (numeric_sequence t q))[hidden_position q := ''?''] ! i = ''?'')
                 = (i = hidden_position q)"
  proof (intro allI impI)
    fix i :: nat
    assume i: "i < 7"
    show "((map str (numeric_sequence t q))[hidden_position q := ''?''] ! i = ''?'')
            = (i = hidden_position q)"
    proof (cases "i = hidden_position q")
      case True
      then show ?thesis using i len by simp
    next
      case False
      then show ?thesis using i len str_not_question by simp
    qed
  qed
  from s nth_term ipos pos len g shown show ?thesis by auto
qed

theorem C4_numeric_hidden_term_witness:
  "valid_key 1 1 \<and> (1::int) \<le> 15 \<and> hidden_position 1 = 3
   \<and> solve_question 1 1 = Inr (AInt 115)"
  using C4_numeric_hidden_term[of 1 1]
  by (simp add: valid_key_def hidden_position_def seq_term_def)

text \<open>
  C5. For every valid key with \<open>question_idx\<close> in \<open>[16, 25]\<close>, \<open>solve_question\<close>
  returns \<open>TRUE\<close> or \<open>FALSE\<close> by evaluating the template chosen by
  \<open>(test_id + local) mod 4\<close> at \<open>p\<close> = \<open>test_id\<close> is even, \<open>q\<close> = \<open>local\<close> is a multiple
  of 3, \<open>r\<close> = \<open>test_id + local\<close> has no divisor among 2, 3, 5, 7, with the implication
  read materially; \<open>solve_question(1, 16)\<close> is \<open>FALSE\<close>.
\<close>

theorem C5_logic_template:
  assumes "valid_key t q" and "16 \<le> q" and "q \<le> 25"
  shows "solve_question t q =
     Inr (AStr (if logic_template ((t + (q - 15)) mod 4) (even t) (3 dvd (q - 15))
                     (no_small_divisor (t + (q - 15)))
                then ''TRUE'' else ''FALSE''))"
proof -
  have band: "band_of q = Some NestedLogic"
    using assms by (simp add: band_of_cases valid_key_def)
  show ?thesis
    using solve_question_dispatch[OF assms(1) band] by (simp add: solve_logic_value)
qed

theorem C5_logic_template_witness:
  "valid_key 1 16 \<and> (16::int) \<le> 16 \<and> (16::int) \<le> 25
   \<and> (1 + (16 - 15)) mod 4 = (2::int) \<and> \<not> even (1::int) \<and> \<not> 3 dvd (16 - 15 :: int)
   \<and> \<not> no_small_divisor (1 + (16 - 15))
   \<and> solve_question 1 16 = Inr (AStr ''FALSE'')"
  using C5_logic_template[of 1 16]
  by (simp add: valid_key_def logic_template_def no_small_divisor_def)

text \<open>
  C6. For every valid key with \<open>question_idx\<close> in \<open>[36, 45]\<close>, \<open>solve_question\<close> returns
  the letter at index \<open>(a x2 + b) mod 26\<close> (\<open>A = 0 .. Z = 25\<close>) for the specification's
  \<open>a\<close>, \<open>b\<close>, \<open>x1\<close>, \<open>x2\<close>, which are the values the solver computes;
  \<open>solve_question(1, 36)\<close> computes 3, 4, 6, 19 and returns \<open>J\<close>.
\<close>

theorem C6_letter_answer:
  assumes "valid_key t q" and "36 \<le> q" and "q \<le> 45"
  shows "solve_letter_locals t q
           = (letter_a t, letter_b t (q - 35), letter_x1 t (q - 35), letter_x2 t (q - 35))
     \<and> solve_question t q =
         Inr (AStr [alphabet ! nat ((letter_a t * letter_x2 t (q - 35) + letter_b t (q - 35))
                                     mod 26)])"
proof -
  have band: "band_of q = Some LetterAnalogy"
    using assms by (simp add: band_of_cases valid_key_def)
  show ?thesis
    using solve_question_dispatch[OF assms(1) band]
    by (simp add: solve_letter_value solve_letter_locals_eq)
qed

theorem C6_letter_answer_witness:
  "valid_key 1 36 \<and> (36::int) \<le> 36 \<and> (36::int) \<le> 45
   \<and> solve_letter_locals 1 36 = (3, 4, 6, 19)
   \<and> solve_question 1 36 = Inr (AStr ''J'')"
  using C6_letter_answer[of 1 36]
  by (simp add: valid_key_def letter_a_def letter_b_def letter_x1_def letter_x2_def
        alphabet_def)

text \<open>
  C7. For every valid key with \<open>question_idx\<close> in \<open>[26, 35]\<close>, \<open>solve_question\<close> returns
  the string \<open>(A, B)\<close> with \<open>A\<close> the primary-cycle element at index \<open>(N1 - 1) mod 4\<close>,
  \<open>N1 = 7 test_id + 11 local\<close>, and \<open>B\<close> the secondary-cycle element at index
  \<open>(N2 - 1) mod 4\<close>, \<open>N2 = 5 test_id - 3 local\<close>; both indices lie in \<open>[0, 4)\<close>, also
  when \<open>N2\<close> is negative.
\<close>

theorem C7_arrow_pair:
  assumes "valid_key t q" and "26 \<le> q" and "q \<le> 35"
  shows "solve_question t q =
           Inr (AStr (''('' @ cycle_at primary_cycle (7 * t + 11 * (q - 25)) @ '', ''
                      @ cycle_at secondary_cycle (5 * t - 3 * (q - 25)) @ '')''))
     \<and> 0 \<le> (7 * t + 11 * (q - 25) - 1) mod 4 \<and> (7 * t + 11 * (q - 25) - 1) mod 4 < 4
     \<and> 0 \<le> (5 * t - 3 * (q - 25) - 1) mod 4 \<and> (5 * t - 3 * (q - 25) - 1) mod 4 < 4
     \<and> cycle_at primary_cycle (7 * t + 11 * (q - 25)) \<in> set primary_cycle
     \<and> cycle_at secondary_cycle (5 * t - 3 * (q - 25)) \<in> set secondary_cycle"
proof -
  have band: "band_of q = Some ArrowCycle"
    using assms by (simp add: band_of_cases valid_key_def)
  have s: "solve_question t q =
           Inr (AStr (''('' @ cycle_at primary_cycle (7 * t + 11 * (q - 25)) @ '', ''
                      @ cycle_at secondary_cycle (5 * t - 3 * (q - 25)) @ '')''))"
    using solve_question_dispatch[OF assms(1) band] by (simp add: solve_arrows_value)
  have r: "\<And>N::int. 0 \<le> (N - 1) mod 4 \<and> (N - 1) mod 4 < 4" by simp
  have m: "\<And>(c::string list) N. length c = 4 \<Longrightarrow> cycle_at c N \<in> set c"
    unfolding cycle_at_def by (rule nth_mem) simp
  have p: "cycle_at primary_cycle (7 * t + 11 * (q - 25)) \<in> set primary_cycle"
    by (rule m) (simp add: primary_cycle_def)
  have p2: "cycle_at secondary_cycle (5 * t - 3 * (q - 25)) \<in> set secondary_cycle"
    by (rule m) (simp add: secondary_cycle_def)
  from s r[of "7 * t + 11 * (q - 25)"] r[of "5 * t - 3 * (q - 25)"] p p2
  show ?thesis by simp
qed

theorem C7_arrow_pair_witness:
  "valid_key 1 35 \<and> (26::int) \<le> 35 \<and> (35::int) \<le> 35
   \<and> 5 * 1 - 3 * (35 - 25) = (-25::int) \<and> (-25 - 1) mod 4 = (2::int)
   \<and> solve_question 1 35 = Inr (AStr (''('' @ arrow_up @ '', '' @ arrow_se @ '')''))"
  using C7_arrow_pair[of 1 35]
  by (simp add: valid_key_def cycle_at_def primary_cycle_def secondary_cycle_def)

text \<open>
  C8. For every valid key with \<open>question_idx\<close> in \<open>[71, 80]\<close>, the bases the
  base-conversion generator records are \<open>base_x = 5 + ((test_id + local) mod 12)\<close>,
  \<open>base_y\<close> first \<open>5 + ((2 test_id + local) mod 12)\<close>, re-rolled to
  \<open>5 + ((3 test_id + local) mod 12)\<close> on collision and 16 if still colliding, and
  \<open>base_z\<close>; \<open>base_x\<close> and \<open>base_y\<close> differ, and all three lie in \<open>[5, 16]\<close>.
\<close>

theorem C8_bases_distinct:
  assumes "valid_key t q" and "71 \<le> q" and "q \<le> 80"
  shows "\<exists>Q. generate_question t q = Some (Inr Q)
           \<and> map_of (q_meta Q) ''base_x'' = Some (VInt (spec_base_x t (q - 70)))
           \<and> map_of (q_meta Q) ''base_y'' = Some (VInt (spec_base_y t (q - 70)))
           \<and> map_of (q_meta Q) ''base_z'' = Some (VInt (spec_base_z t (q - 70)))
           \<and> spec_base_x t (q - 70) \<noteq> spec_base_y t (q - 70)
           \<and> 5 \<le> spec_base_x t (q - 70) \<and> spec_base_x t (q - 70) \<le> 16
           \<and> 5 \<le> spec_base_y t (q - 70) \<and> spec_base_y t (q - 70) \<le> 16
           \<and> 5 \<le> spec_base_z t (q - 70) \<and> spec_base_z t (q - 70) \<le> 16"
proof -
  have band: "band_of q = Some BaseConversion"
    using assms by (simp add: band_of_cases valid_key_def)
  have g: "generate_question t q = generate_base_conversion_question t q"
    using generate_question_dispatch[OF assms(1) band] by simp
  have l: "1 \<le> q - 70" "q - 70 \<le> 10" using assms by simp_all
  from generate_base_conversion_question_value[of t q] g
  have "\<exists>Q. generate_question t q = Some (Inr Q)
           \<and> map_of (q_meta Q) ''base_x'' = Some (VInt (spec_base_x t (q - 70)))
           \<and> map_of (q_meta Q) ''base_y'' = Some (VInt (spec_base_y t (q - 70)))
           \<and> map_of (q_meta Q) ''base_z'' = Some (VInt (spec_base_z t (q - 70)))"
    by auto
  with spec_bases_distinct[OF l, of t] spec_bases_range[of t "q - 70"]
  show ?thesis by blast
qed

theorem C8_bases_distinct_witness:
  "valid_key 12 71 \<and> (71::int) \<le> 71 \<and> (71::int) \<le> 80
   \<and> 5 + ((2 * 12 + 1) mod 12) = 5 + ((12 + 1) mod (12::int))
   \<and> 5 + ((3 * 12 + 1) mod 12) = 5 + ((12 + 1) mod (12::int))
   \<and> (\<exists>Q. generate_question 12 71 = Some (Inr Q)
         \<and> map_of (q_meta Q) ''base_x'' = Some (VInt 6)
         \<and> map_of (q_meta Q) ''base_y'' = Some (VInt 16)
         \<and> map_of (q_meta Q) ''base_z'' = Some (VInt 7))"
  using C8_bases_distinct[of 12 71]
  by (simp add: valid_key_def spec_base_x_def spec_base_y_def spec_base_z_def)

text \<open>
  C9. For every valid key with \<open>question_idx\<close> in \<open>[71, 80]\<close>, \<open>solve_question\<close> returns
  the integer \<open>N = 200 + 17 test_id + 11 local\<close> itself; \<open>N\<close> is positive, so the base
  renderer never takes its \<open>"0"\<close> branch on it and goes to its digit loop;
  \<open>solve_question(2, 71)\<close> is 245.
\<close>

theorem C9_base_answer:
  assumes "valid_key t q" and "71 \<le> q" and "q \<le> 80"
  shows "solve_question t q = Inr (AInt (hidden_integer t (q - 70)))
     \<and> 0 < hidden_integer t (q - 70)
     \<and> (\<forall>b. to_base (hidden_integer t (q - 70)) b
               = to_base_loop (hidden_integer t (q - 70)) b [])"
proof -
  have band: "band_of q = Some BaseConversion"
    using assms by (simp add: band_of_cases valid_key_def)
  have s: "solve_question t q = Inr (AInt (hidden_integer t (q - 70)))"
    using solve_question_dispatch[OF assms(1) band]
    by (simp add: solve_base_def hidden_integer_def)
  have pos: "0 < hidden_integer t (q - 70)"
    using assms by (simp add: hidden_integer_def valid_key_def)
  then have "\<forall>b. to_base (hidden_integer t (q - 70)) b
               = to_base_loop (hidden_integer t (q - 70)) b []"
    by (simp add: to_base_def)
  with s pos show ?thesis by simp
qed

theorem C9_base_answer_witness:
  "valid_key 2 71 \<and> (71::int) \<le> 71 \<and> (71::int) \<le> 80
   \<and> solve_question 2 71 = Inr (AInt 245)"
  using C9_base_answer[of 2 71]
  by (simp add: valid_key_def hidden_integer_def)

text \<open>
  C10. For every \<open>test_id\<close> the coefficient \<open>a = (2 test_id + 1) mod 26\<close> is odd, so the
  guard \<open>a % 2 == 0\<close> of the correction branch is false in the generator and in the
  solver and both keep \<open>a\<close> as it is. Odd does not make \<open>a\<close> invertible modulo 26: at
  \<open>test_id = 6\<close> both compute \<open>a = 13\<close>, which shares the factor 13 with 26 and has no
  inverse, so that the letter map sends \<open>x\<close> and \<open>x + 2\<close> to the same letter.
\<close>

theorem C10_letter_a_odd_not_invertible:
  "((2 * t + 1) mod 26) mod 2 \<noteq> 0
   \<and> fst (generate_letter_locals t q) = (2 * t + 1) mod 26
   \<and> fst (solve_letter_locals t q) = (2 * t + 1) mod 26
   \<and> odd (fst (generate_letter_locals t q)) \<and> odd (fst (solve_letter_locals t q))
   \<and> valid_key 6 36
   \<and> fst (generate_letter_locals 6 36) = 13 \<and> fst (solve_letter_locals 6 36) = 13
   \<and> \<not> coprime (13::int) 26
   \<and> (\<nexists>c::int. (13 * c) mod 26 = 1)
   \<and> (13 * 0 + 9) mod 26 = (13 * 2 + 9) mod (26::int)"
proof -
  have guard: "((2 * t + 1) mod 26) mod 2 \<noteq> 0" by (rule letter_a_guard)
  then have odd_a: "odd ((2 * t + 1) mod 26)" by presburger
  have sa: "fst (solve_letter_locals t q) = (2 * t + 1) mod 26"
    using guard by (simp add: solve_letter_locals_def Let_def)
  have ga: "fst (generate_letter_locals t q) = (2 * t + 1) mod 26"
    using sa by (simp add: generate_letter_locals_eq)
  have s6: "fst (solve_letter_locals 6 36) = 13"
    by (simp add: solve_letter_locals_def Let_def)
  have g6: "fst (generate_letter_locals 6 36) = 13"
    using s6 by (simp add: generate_letter_locals_eq)
  have nc: "\<not> coprime (13::int) 26"
  proof
    assume "coprime (13::int) 26"
    moreover have "(13::int) dvd 13" "(13::int) dvd 26" by simp_all
    ultimately have "is_unit (13::int)" by (rule coprime_common_divisor)
    then show False by simp
  qed
  have ni: "\<nexists>c::int. (13 * c) mod 26 = 1" by presburger
  have v: "valid_key 6 36" by (simp add: valid_key_def)
  from guard sa ga odd_a s6 g6 nc ni v show ?thesis by simp
qed

end
